theory Spec2Isabelle
  imports Main "HOL-Library.Sublist"
begin

section \<open>The browser driver as seen by \<open>recaptcha_solver.py\<close>\<close>

text \<open>
  \<open>RecaptchaSolver\<close> never looks inside the browser: it issues calls to a Selenium
  driver and reacts to what each call returns or raises. The driver is therefore an
  environment. Every call the solver makes is appended to a trace, together with the
  exception it raised, if any, and the driver answers each call as a function of the
  trace so far, so that its behaviour may depend on everything that happened before
  (the clicks, the frame switches, and the time that passed in \<open>time.sleep\<close>).

  Logging is not modelled: \<open>self.logger\<close> writes to the process log and neither
  returns a value to the solver nor raises.
\<close>

type_synonym handle = string
type_synonym selector = string

datatype element = WebElement nat

text \<open>
  The exceptions are instances of Python's \<open>Exception\<close>, as all of Selenium's are
  (they derive from \<open>WebDriverException\<close>). \<open>TimeoutException\<close> and
  \<open>NoSuchElementException\<close> are the two the solver names in its handlers,
  \<open>IndexError\<close> is what indexing an empty list raises, and \<open>WebDriverException\<close>
  stands for every other driver fault, with its message.
\<close>

datatype exn =
    TimeoutException
  | NoSuchElementException
  | IndexError
  | WebDriverException string

text \<open>
  The calls. \<open>UntilPresence n sel\<close> is
  \<open>WebDriverWait(driver, n).until(EC.presence_of_element_located((By.CSS_SELECTOR, sel)))\<close>
  and \<open>UntilClickable n sel\<close> the same with \<open>EC.element_to_be_clickable\<close>; \<open>n\<close> is
  the wait budget in seconds. \<open>Sleep ms\<close> is \<open>time.sleep\<close>, in milliseconds, since the
  source sleeps for 0.5, 2 and 5 seconds.
\<close>

datatype call =
    WindowHandles
  | SwitchToWindow handle
  | SwitchToFrame element
  | SwitchToDefaultContent
  | UntilPresence int selector
  | UntilClickable int selector
  | FindElement selector
  | Click element
  | Sleep nat

datatype event = Returned call | Raised call exn

type_synonym trace = "event list"

record driver =
  window_handles :: "trace \<Rightarrow> exn + handle list"
  switch_to_window :: "trace \<Rightarrow> handle \<Rightarrow> exn + unit"
  switch_to_frame :: "trace \<Rightarrow> element \<Rightarrow> exn + unit"
  switch_to_default_content :: "trace \<Rightarrow> exn + unit"
  until_presence :: "trace \<Rightarrow> int \<Rightarrow> selector \<Rightarrow> exn + element"
  until_clickable :: "trace \<Rightarrow> int \<Rightarrow> selector \<Rightarrow> exn + element"
  find_element :: "trace \<Rightarrow> selector \<Rightarrow> exn + element"
  click :: "trace \<Rightarrow> element \<Rightarrow> exn + unit"

text \<open>
  A statement of the solver is a function from the trace to a result, raised (\<open>Inl\<close>) or
  returned (\<open>Inr\<close>), and the extended trace. \<open>perform c r\<close> records the call \<open>c\<close>
  whose answer is \<open>r\<close>; \<open>and_then\<close> is sequencing, which stops at a raise.
\<close>

type_synonym 'a stmt = "trace \<Rightarrow> (exn + 'a) \<times> trace"

definition perform :: "call \<Rightarrow> exn + 'a \<Rightarrow> 'a stmt" where
  "perform c r t =
     (case r of
        Inl e \<Rightarrow> (Inl e, t @ [Raised c e])
      | Inr a \<Rightarrow> (Inr a, t @ [Returned c]))"

definition and_then :: "'a stmt \<Rightarrow> ('a \<Rightarrow> 'b stmt) \<Rightarrow> 'b stmt" where
  "and_then m f t =
     (case m t of
        (Inl e, t1) \<Rightarrow> (Inl e, t1)
      | (Inr a, t1) \<Rightarrow> f a t1)"

definition return :: "'a \<Rightarrow> 'a stmt" where
  "return a t = (Inr a, t)"

definition raise :: "exn \<Rightarrow> 'a stmt" where
  "raise e t = (Inl e, t)"

definition sleep :: "nat \<Rightarrow> unit stmt" where
  "sleep ms t = (Inr (), t @ [Returned (Sleep ms)])"

text \<open>
  \<open>except m x h\<close> is \<open>try: m except x: h\<close> for a named exception class, and
  \<open>except_Exception m h\<close> is \<open>try: m except Exception: h\<close>, which catches every
  exception of the model.
\<close>

definition except :: "'a stmt \<Rightarrow> exn \<Rightarrow> 'a stmt \<Rightarrow> 'a stmt" where
  "except m x h t =
     (case m t of
        (Inl e, t1) \<Rightarrow> if e = x then h t1 else (Inl e, t1)
      | (Inr a, t1) \<Rightarrow> (Inr a, t1))"

definition except_Exception :: "'a stmt \<Rightarrow> 'a stmt \<Rightarrow> 'a stmt" where
  "except_Exception m h t =
     (case m t of
        (Inl e, t1) \<Rightarrow> h t1
      | (Inr a, t1) \<Rightarrow> (Inr a, t1))"

text \<open>The calls of the driver, each recorded in the trace.\<close>

definition driver_window_handles :: "driver \<Rightarrow> handle list stmt" where
  "driver_window_handles d t = perform WindowHandles (window_handles d t) t"

definition driver_switch_to_window :: "driver \<Rightarrow> handle \<Rightarrow> unit stmt" where
  "driver_switch_to_window d h t = perform (SwitchToWindow h) (switch_to_window d t h) t"

definition driver_switch_to_frame :: "driver \<Rightarrow> element \<Rightarrow> unit stmt" where
  "driver_switch_to_frame d e t = perform (SwitchToFrame e) (switch_to_frame d t e) t"

definition driver_switch_to_default_content :: "driver \<Rightarrow> unit stmt" where
  "driver_switch_to_default_content d t =
     perform SwitchToDefaultContent (switch_to_default_content d t) t"

definition wait_until_presence :: "driver \<Rightarrow> int \<Rightarrow> selector \<Rightarrow> element stmt" where
  "wait_until_presence d n sel t = perform (UntilPresence n sel) (until_presence d t n sel) t"

definition wait_until_clickable :: "driver \<Rightarrow> int \<Rightarrow> selector \<Rightarrow> element stmt" where
  "wait_until_clickable d n sel t = perform (UntilClickable n sel) (until_clickable d t n sel) t"

definition driver_find_element :: "driver \<Rightarrow> selector \<Rightarrow> element stmt" where
  "driver_find_element d sel t = perform (FindElement sel) (find_element d t sel) t"

definition element_click :: "driver \<Rightarrow> element \<Rightarrow> unit stmt" where
  "element_click d e t = perform (Click e) (click d t e) t"

text \<open>
  The focus of the session is the path of frames entered from the top-level document:
  \<open>[]\<close> is the top-level context. A switch that returns takes effect, a switch that
  raises leaves the focus where it was, and no other call moves it.
\<close>

fun focus_step :: "element list \<Rightarrow> event \<Rightarrow> element list" where
  "focus_step p (Returned (SwitchToFrame e)) = p @ [e]"
| "focus_step p (Returned SwitchToDefaultContent) = []"
| "focus_step p (Returned (SwitchToWindow h)) = []"
| "focus_step p ev = p"

definition focus :: "element list \<Rightarrow> trace \<Rightarrow> element list" where
  "focus p t = foldl focus_step p t"

fun context_op :: "event \<Rightarrow> bool" where
  "context_op (Returned c) = (case c of SwitchToWindow h \<Rightarrow> True | SwitchToFrame e \<Rightarrow> True
      | SwitchToDefaultContent \<Rightarrow> True | _ \<Rightarrow> False)"
| "context_op (Raised c x) = (case c of SwitchToWindow h \<Rightarrow> True | SwitchToFrame e \<Rightarrow> True
      | SwitchToDefaultContent \<Rightarrow> True | _ \<Rightarrow> False)"

section \<open>The solver\<close>

text \<open>
  The fields of \<open>RecaptchaSolver\<close> set by \<open>__init__\<close>. \<open>wait\<close> is the budget of the
  \<open>WebDriverWait\<close> held in \<open>self.wait\<close>.
\<close>

record RecaptchaSolver =
  driver :: driver
  wait :: int
  timeout :: int
  CHECKBOX_IFRAME_SELECTOR :: selector
  CHECKBOX_SELECTOR :: selector
  CHECKBOX_CHECKED_SELECTOR :: selector
  CHALLENGE_IFRAME_SELECTORS :: "selector list"
  BUSTER_BUTTON_SELECTORS :: "selector list"

definition init :: "driver \<Rightarrow> int \<Rightarrow> RecaptchaSolver" where
  "init drv tmo =
     \<lparr> driver = drv, wait = tmo, timeout = tmo,
       CHECKBOX_IFRAME_SELECTOR = ''iframe[title='reCAPTCHA']'',
       CHECKBOX_SELECTOR = ''#recaptcha-anchor'',
       CHECKBOX_CHECKED_SELECTOR = ''#recaptcha-anchor[aria-checked='true']'',
       CHALLENGE_IFRAME_SELECTORS =
         [''iframe[title='recaptcha challenge expires in two minutes']'',
          ''iframe[title='recaptcha challenge']'',
          ''iframe[src*='bframe']''],
       BUSTER_BUTTON_SELECTORS =
         [''div.help-button-holder'',
          ''.help-button-holder'',
          ''[class*='help-button']''] \<rparr>"

text \<open>
  \<open>handle_extension_tabs\<close> reads the property \<open>window_handles\<close> twice, once for
  \<open>len\<close> and once for the element at index 0, which raises on an empty list.
\<close>

definition handle_extension_tabs :: "RecaptchaSolver \<Rightarrow> unit stmt" where
  "handle_extension_tabs self =
     and_then (driver_window_handles (driver self)) (\<lambda>hs.
       if length hs > 1 then
         and_then (driver_window_handles (driver self)) (\<lambda>hs'.
           case hs' of
             [] \<Rightarrow> raise IndexError
           | h # _ \<Rightarrow>
               and_then (driver_switch_to_window (driver self) h) (\<lambda>_.
                 sleep 500))
       else return ())"

definition find_recaptcha_checkbox_iframe :: "RecaptchaSolver \<Rightarrow> element option stmt" where
  "find_recaptcha_checkbox_iframe self =
     except
       (and_then
          (wait_until_presence (driver self) (wait self) (CHECKBOX_IFRAME_SELECTOR self))
          (\<lambda>iframe. return (Some iframe)))
       TimeoutException
       (return None)"

definition click_recaptcha_checkbox :: "RecaptchaSolver \<Rightarrow> bool stmt" where
  "click_recaptcha_checkbox self =
     except
       (and_then
          (wait_until_clickable (driver self) (wait self) (CHECKBOX_SELECTOR self))
          (\<lambda>checkbox.
             and_then (element_click (driver self) checkbox) (\<lambda>_. return True)))
       TimeoutException
       (return False)"

definition is_recaptcha_solved :: "RecaptchaSolver \<Rightarrow> bool stmt" where
  "is_recaptcha_solved self =
     except
       (and_then
          (driver_find_element (driver self) (CHECKBOX_CHECKED_SELECTOR self))
          (\<lambda>_. return True))
       NoSuchElementException
       (return False)"

text \<open>
  The two \<open>for selector in ...\<close> loops, by recursion on the selectors still to try:
  \<open>continue\<close> in the handler of \<open>TimeoutException\<close> is the recursive call, and the
  empty list is the code after the loop.
\<close>

fun find_challenge_iframe_for :: "RecaptchaSolver \<Rightarrow> selector list \<Rightarrow> element option stmt" where
  "find_challenge_iframe_for self [] = return None"
| "find_challenge_iframe_for self (selector # rest) =
     except
       (and_then
          (wait_until_presence (driver self) (wait self) selector)
          (\<lambda>iframe. return (Some iframe)))
       TimeoutException
       (find_challenge_iframe_for self rest)"

definition find_challenge_iframe :: "RecaptchaSolver \<Rightarrow> element option stmt" where
  "find_challenge_iframe self =
     find_challenge_iframe_for self (CHALLENGE_IFRAME_SELECTORS self)"

fun activate_buster_extension_for :: "RecaptchaSolver \<Rightarrow> selector list \<Rightarrow> bool stmt" where
  "activate_buster_extension_for self [] = return False"
| "activate_buster_extension_for self (selector # rest) =
     except
       (and_then
          (wait_until_clickable (driver self) (wait self) selector)
          (\<lambda>buster_button.
             and_then (sleep 5000) (\<lambda>_.
               and_then (element_click (driver self) buster_button) (\<lambda>_.
                 return True))))
       TimeoutException
       (activate_buster_extension_for self rest)"

definition activate_buster_extension :: "RecaptchaSolver \<Rightarrow> bool stmt" where
  "activate_buster_extension self =
     activate_buster_extension_for self (BUSTER_BUTTON_SELECTORS self)"

definition wait_for_solution :: "RecaptchaSolver \<Rightarrow> int \<Rightarrow> bool stmt" where
  "wait_for_solution self max_wait_time =
     except
       (and_then
          (wait_until_presence (driver self) max_wait_time (CHECKBOX_CHECKED_SELECTOR self))
          (\<lambda>_. return True))
       TimeoutException
       (return False)"

text \<open>The \<open>try\<close> block of \<open>solve_recaptcha\<close>.\<close>

definition solve_recaptcha_try :: "RecaptchaSolver \<Rightarrow> int \<Rightarrow> bool stmt" where
  "solve_recaptcha_try self max_wait_time =
     and_then (handle_extension_tabs self) (\<lambda>_.
     and_then (find_recaptcha_checkbox_iframe self) (\<lambda>found.
     case found of
       None \<Rightarrow> return False
     | Some checkbox_iframe \<Rightarrow>
     and_then (driver_switch_to_frame (driver self) checkbox_iframe) (\<lambda>_.
     and_then (click_recaptcha_checkbox self) (\<lambda>clicked.
     if \<not> clicked then return False else
     and_then (sleep 2000) (\<lambda>_.
     and_then (is_recaptcha_solved self) (\<lambda>solved.
     if solved then return True else
     and_then (driver_switch_to_default_content (driver self)) (\<lambda>_.
     and_then (find_challenge_iframe self) (\<lambda>challenge.
     case challenge of
       None \<Rightarrow> return False
     | Some challenge_iframe \<Rightarrow>
     and_then (driver_switch_to_frame (driver self) challenge_iframe) (\<lambda>_.
     and_then (activate_buster_extension self) (\<lambda>activated.
     if \<not> activated then return False else
     and_then (driver_switch_to_default_content (driver self)) (\<lambda>_.
     and_then (driver_switch_to_frame (driver self) checkbox_iframe) (\<lambda>_.
     wait_for_solution self max_wait_time))))))))))))"

text \<open>
  The \<open>finally\<close> block: \<open>switch_to.default_content()\<close> under a bare \<open>except: pass\<close>.
  The call is recorded, what it raises is dropped.
\<close>

definition solve_recaptcha_finally :: "RecaptchaSolver \<Rightarrow> trace \<Rightarrow> trace" where
  "solve_recaptcha_finally self t = snd (driver_switch_to_default_content (driver self) t)"

definition solve_recaptcha :: "RecaptchaSolver \<Rightarrow> int \<Rightarrow> bool stmt" where
  "solve_recaptcha self max_wait_time t =
     (case except_Exception (solve_recaptcha_try self max_wait_time) (return False) t of
        (r, t1) \<Rightarrow> (r, solve_recaptcha_finally self t1))"

text \<open>
  The \<open>while\<close> loop of \<open>solve_all_recaptchas\<close>, on the local variable \<open>attempts\<close>;
  the loop returns the value of \<open>attempts\<close> at its exit beside the result.
  \<open>solve_recaptcha\<close> is called with its default \<open>max_wait_time\<close> of 30.
\<close>

function solve_all_recaptchas_while ::
  "RecaptchaSolver \<Rightarrow> int \<Rightarrow> int \<Rightarrow> trace \<Rightarrow> (exn + bool) \<times> int \<times> trace" where
  "solve_all_recaptchas_while self max_attempts attempts t =
     (if attempts < max_attempts then
        (case solve_recaptcha self 30 t of
           (Inl e, t1) \<Rightarrow> (Inl e, attempts + 1, t1)
         | (Inr True, t1) \<Rightarrow> (Inr True, attempts + 1, t1)
         | (Inr False, t1) \<Rightarrow>
             if attempts + 1 < max_attempts
             then solve_all_recaptchas_while self max_attempts (attempts + 1)
                    (t1 @ [Returned (Sleep 2000)])
             else solve_all_recaptchas_while self max_attempts (attempts + 1) t1)
      else (Inr False, attempts, t))"
  by pat_completeness auto
termination
  by (relation "measure (\<lambda>(self, max_attempts, attempts, t). nat (max_attempts - attempts))") auto

declare solve_all_recaptchas_while.simps [simp del]

definition solve_all_recaptchas :: "RecaptchaSolver \<Rightarrow> int \<Rightarrow> bool stmt" where
  "solve_all_recaptchas self max_attempts t =
     (case solve_all_recaptchas_while self max_attempts 0 t of
        (r, attempts, t1) \<Rightarrow> (r, t1))"

section \<open>Reading a trace\<close>

fun call_of :: "event \<Rightarrow> call" where
  "call_of (Returned c) = c"
| "call_of (Raised c e) = c"

text \<open>
  \<open>presence_misses n sels\<close> and \<open>clickable_misses n sels\<close> are the events of trying
  the selectors \<open>sels\<close> in order, each under a wait of \<open>n\<close> seconds that times out.
\<close>

definition presence_misses :: "int \<Rightarrow> selector list \<Rightarrow> trace" where
  "presence_misses n sels = map (\<lambda>sel. Raised (UntilPresence n sel) TimeoutException) sels"

definition clickable_misses :: "int \<Rightarrow> selector list \<Rightarrow> trace" where
  "clickable_misses n sels = map (\<lambda>sel. Raised (UntilClickable n sel) TimeoutException) sels"

text \<open>
  \<open>delayed_clicks prev evs\<close>: in the events \<open>evs\<close>, which follow the event \<open>prev\<close>,
  every click comes right after a completed sleep of 5 seconds.
\<close>

fun is_click :: "event \<Rightarrow> bool" where
  "is_click ev = (case call_of ev of Click b \<Rightarrow> True | _ \<Rightarrow> False)"

fun delayed_clicks :: "event \<Rightarrow> trace \<Rightarrow> bool" where
  "delayed_clicks prev [] = True"
| "delayed_clicks prev (ev # evs) =
     ((is_click ev \<longrightarrow> prev = Returned (Sleep 5000)) \<and> delayed_clicks ev evs)"

text \<open>
  \<open>after_failed_attempts self k t\<close> is the trace after \<open>k\<close> runs of \<open>solve_recaptcha\<close>
  from \<open>t\<close>, each followed by the delay of 2 seconds between attempts.
\<close>

fun after_failed_attempts :: "RecaptchaSolver \<Rightarrow> nat \<Rightarrow> trace \<Rightarrow> trace" where
  "after_failed_attempts self 0 t = t"
| "after_failed_attempts self (Suc k) t =
     after_failed_attempts self k (snd (solve_recaptcha self 30 t) @ [Returned (Sleep 2000)])"

section \<open>Drivers to run the solver on\<close>

text \<open>
  A page whose widget is verified by the click on its checkbox, in a browser with the
  tabs \<open>hs\<close>.
\<close>

definition verified_on_click :: "handle list \<Rightarrow> driver" where
  "verified_on_click hs =
     \<lparr> window_handles = (\<lambda>t. Inr hs),
       switch_to_window = (\<lambda>t h. Inr ()),
       switch_to_frame = (\<lambda>t e. Inr ()),
       switch_to_default_content = (\<lambda>t. Inr ()),
       until_presence = (\<lambda>t n sel.
         if sel = ''iframe[title='reCAPTCHA']'' then Inr (WebElement 1)
         else Inl TimeoutException),
       until_clickable = (\<lambda>t n sel.
         if sel = ''#recaptcha-anchor'' then Inr (WebElement 2) else Inl TimeoutException),
       find_element = (\<lambda>t sel.
         if Returned (Click (WebElement 2)) \<in> set t then Inr (WebElement 2)
         else Inl NoSuchElementException),
       click = (\<lambda>t e. Inr ()) \<rparr>"

text \<open>A page with no widget.\<close>

definition no_widget :: driver where
  "no_widget =
     \<lparr> window_handles = (\<lambda>t. Inr [''tab1'']),
       switch_to_window = (\<lambda>t h. Inr ()),
       switch_to_frame = (\<lambda>t e. Inr ()),
       switch_to_default_content = (\<lambda>t. Inr ()),
       until_presence = (\<lambda>t n sel. Inl TimeoutException),
       until_clickable = (\<lambda>t n sel. Inl TimeoutException),
       find_element = (\<lambda>t sel. Inl NoSuchElementException),
       click = (\<lambda>t e. Inr ()) \<rparr>"

text \<open>
  A page whose widget answers the click with a challenge: the challenge iframe carries
  the second of the three titles, the Buster button matches the last of its selectors
  only, and the widget is verified once that button has been clicked.
\<close>

definition challenge_page :: driver where
  "challenge_page =
     \<lparr> window_handles = (\<lambda>t. Inr [''tab1'']),
       switch_to_window = (\<lambda>t h. Inr ()),
       switch_to_frame = (\<lambda>t e. Inr ()),
       switch_to_default_content = (\<lambda>t. Inr ()),
       until_presence = (\<lambda>t n sel.
         if sel = ''iframe[title='reCAPTCHA']'' then Inr (WebElement 1)
         else if sel = ''iframe[title='recaptcha challenge']'' then Inr (WebElement 3)
         else if sel = ''#recaptcha-anchor[aria-checked='true']''
                 \<and> Returned (Click (WebElement 4)) \<in> set t then Inr (WebElement 2)
         else Inl TimeoutException),
       until_clickable = (\<lambda>t n sel.
         if sel = ''#recaptcha-anchor'' then Inr (WebElement 2)
         else if sel = ''[class*='help-button']'' then Inr (WebElement 4)
         else Inl TimeoutException),
       find_element = (\<lambda>t sel.
         if Returned (Click (WebElement 4)) \<in> set t then Inr (WebElement 2)
         else Inl NoSuchElementException),
       click = (\<lambda>t e. Inr ()) \<rparr>"

text \<open>
  A session that is lost once the solver is in the checkbox frame: the wait for the
  checkbox and the switch back to the top level both raise.
\<close>

definition lost_in_frame :: driver where
  "lost_in_frame =
     \<lparr> window_handles = (\<lambda>t. Inr [''tab1'']),
       switch_to_window = (\<lambda>t h. Inr ()),
       switch_to_frame = (\<lambda>t e. Inr ()),
       switch_to_default_content = (\<lambda>t. Inl (WebDriverException ''disconnected'')),
       until_presence = (\<lambda>t n sel. Inr (WebElement 1)),
       until_clickable = (\<lambda>t n sel. Inl (WebDriverException ''disconnected'')),
       find_element = (\<lambda>t sel. Inl (WebDriverException ''disconnected'')),
       click = (\<lambda>t e. Inl (WebDriverException ''disconnected'')) \<rparr>"

text \<open>
  A page whose widget is rendered late: it is there once two delays between attempts
  have passed, and is then verified by the click.
\<close>

definition rendered_late :: driver where
  "rendered_late =
     \<lparr> window_handles = (\<lambda>t. Inr [''tab1'']),
       switch_to_window = (\<lambda>t h. Inr ()),
       switch_to_frame = (\<lambda>t e. Inr ()),
       switch_to_default_content = (\<lambda>t. Inr ()),
       until_presence = (\<lambda>t n sel.
         if 2 \<le> length (filter (\<lambda>ev. ev = Returned (Sleep 2000)) t)
         then Inr (WebElement 1) else Inl TimeoutException),
       until_clickable = (\<lambda>t n sel. Inr (WebElement 2)),
       find_element = (\<lambda>t sel. Inr (WebElement 2)),
       click = (\<lambda>t e. Inr ()) \<rparr>"

text \<open>
  A challenge frame in which every Buster selector is clickable at once, and the click
  on the button times out, as a click does when the page it triggers does not load
  within the driver's page-load timeout.
\<close>

definition click_times_out :: driver where
  "click_times_out =
     \<lparr> window_handles = (\<lambda>t. Inr [''tab1'']),
       switch_to_window = (\<lambda>t h. Inr ()),
       switch_to_frame = (\<lambda>t e. Inr ()),
       switch_to_default_content = (\<lambda>t. Inr ()),
       until_presence = (\<lambda>t n sel. Inr (WebElement 1)),
       until_clickable = (\<lambda>t n sel. Inr (WebElement 4)),
       find_element = (\<lambda>t sel. Inl NoSuchElementException),
       click = (\<lambda>t e. Inl TimeoutException) \<rparr>"

text \<open>The same frame, where the click on the button is intercepted by another element.\<close>

definition click_intercepted :: driver where
  "click_intercepted =
     \<lparr> window_handles = (\<lambda>t. Inr [''tab1'']),
       switch_to_window = (\<lambda>t h. Inr ()),
       switch_to_frame = (\<lambda>t e. Inr ()),
       switch_to_default_content = (\<lambda>t. Inr ()),
       until_presence = (\<lambda>t n sel. Inr (WebElement 1)),
       until_clickable = (\<lambda>t n sel. Inr (WebElement 4)),
       find_element = (\<lambda>t sel. Inl NoSuchElementException),
       click = (\<lambda>t e. Inl (WebDriverException ''element click intercepted'')) \<rparr>"

section \<open>Running statements\<close>

lemmas stmt_defs =
  perform_def and_then_def return_def raise_def sleep_def except_def except_Exception_def
  driver_window_handles_def driver_switch_to_window_def driver_switch_to_frame_def
  driver_switch_to_default_content_def wait_until_presence_def wait_until_clickable_def
  driver_find_element_def element_click_def

lemmas solver_defs =
  handle_extension_tabs_def find_recaptcha_checkbox_iframe_def click_recaptcha_checkbox_def
  is_recaptcha_solved_def find_challenge_iframe_def activate_buster_extension_def
  wait_for_solution_def solve_recaptcha_try_def solve_recaptcha_finally_def solve_recaptcha_def

lemma focus_snoc: "focus p (t @ [ev]) = focus_step (focus p t) ev"
  by (simp add: focus_def)

lemma solve_recaptcha_returns:
  "fst (solve_recaptcha self max_wait_time t) = Inr True
   \<or> fst (solve_recaptcha self max_wait_time t) = Inr False"
  by (auto simp: solve_recaptcha_def except_Exception_def return_def
        split: prod.splits sum.splits)

lemma finally_shape:
  "butlast (solve_recaptcha_finally self t) = t
   \<and> call_of (last (solve_recaptcha_finally self t)) = SwitchToDefaultContent"
  by (simp add: solve_recaptcha_finally_def driver_switch_to_default_content_def perform_def
        split: sum.splits)

lemma solve_recaptcha_of_try:
  "solve_recaptcha_try self mw t = (Inr b, t1) \<Longrightarrow>
     solve_recaptcha self mw t = (Inr b, solve_recaptcha_finally self t1)"
  by (simp add: solve_recaptcha_def except_Exception_def)

lemma and_then_Inr: "m t = (Inr a, t1) \<Longrightarrow> and_then m f t = f a t1"
  by (simp add: and_then_def)

text \<open>Every statement of the solver only appends to the trace.\<close>

lemma grows_perform: "prefix t (snd (perform c r t))"
  by (simp add: perform_def split: sum.splits)

lemma grows_return: "prefix t (snd (return a t))"
  by (simp add: return_def)

lemma grows_sleep: "prefix t (snd (sleep ms t))"
  by (simp add: sleep_def)

lemma prefix_and_then:
  assumes "prefix p (snd (m t))" and "\<And>a t. prefix t (snd (f a t))"
  shows "prefix p (snd (and_then m f t))"
proof (cases "m t")
  case (Pair r t1)
  show ?thesis
  proof (cases r)
    case (Inl e)
    with Pair assms(1) show ?thesis by (simp add: and_then_def)
  next
    case (Inr a)
    have "prefix t1 (snd (f a t1))" by (rule assms(2))
    with Pair Inr assms(1) show ?thesis
      by (auto simp: and_then_def elim: prefix_order.trans)
  qed
qed

lemma prefix_except:
  assumes "prefix p (snd (m t))" and "\<And>t. prefix t (snd (h t))"
  shows "prefix p (snd (except m x h t))"
proof (cases "m t")
  case (Pair r t1)
  have "prefix t1 (snd (h t1))" by (rule assms(2))
  with Pair assms(1) show ?thesis
    by (cases r) (auto simp: except_def elim: prefix_order.trans)
qed

lemma grows_wait_until_presence: "prefix t (snd (wait_until_presence d n sel t))"
  by (simp add: wait_until_presence_def grows_perform)

lemma grows_wait_until_clickable: "prefix t (snd (wait_until_clickable d n sel t))"
  by (simp add: wait_until_clickable_def grows_perform)

lemma grows_element_click: "prefix t (snd (element_click d e t))"
  by (simp add: element_click_def grows_perform)

lemma grows_switch_to_frame: "prefix t (snd (driver_switch_to_frame d e t))"
  by (simp add: driver_switch_to_frame_def grows_perform)

lemma grows_switch_to_default_content: "prefix t (snd (driver_switch_to_default_content d t))"
  by (simp add: driver_switch_to_default_content_def grows_perform)

lemma grows_find_challenge_iframe_for: "prefix t (snd (find_challenge_iframe_for self sels t))"
proof (induction sels arbitrary: t)
  case Nil
  show ?case by (simp add: grows_return)
next
  case (Cons sel sels)
  show ?case
    unfolding find_challenge_iframe_for.simps
    by (intro prefix_except prefix_and_then grows_wait_until_presence grows_return Cons.IH)
qed

lemma grows_activate_buster_extension_for:
  "prefix t (snd (activate_buster_extension_for self sels t))"
proof (induction sels arbitrary: t)
  case Nil
  show ?case by (simp add: grows_return)
next
  case (Cons sel sels)
  show ?case
    unfolding activate_buster_extension_for.simps
    by (intro prefix_except prefix_and_then grows_wait_until_clickable grows_sleep
          grows_element_click grows_return Cons.IH)
qed

lemma grows_wait_for_solution: "prefix t (snd (wait_for_solution self n t))"
  unfolding wait_for_solution_def
  by (intro prefix_except prefix_and_then grows_wait_until_presence grows_return)

text \<open>What \<open>solve_recaptcha_try\<close> does once the challenge iframe has been looked up.\<close>

lemma grows_after_challenge_lookup:
  "prefix t
     (snd ((case challenge of
         None \<Rightarrow> return False
       | Some challenge_iframe \<Rightarrow>
       and_then (driver_switch_to_frame (driver self) challenge_iframe) (\<lambda>_.
       and_then (activate_buster_extension self) (\<lambda>activated.
       if \<not> activated then return False else
       and_then (driver_switch_to_default_content (driver self)) (\<lambda>_.
       and_then (driver_switch_to_frame (driver self) checkbox_iframe) (\<lambda>_.
       wait_for_solution self max_wait_time))))) t))"
proof (cases challenge)
  case None
  then show ?thesis by (simp add: grows_return)
next
  case (Some challenge_iframe)
  have "prefix t (snd (and_then (driver_switch_to_frame (driver self) challenge_iframe) (\<lambda>_.
       and_then (activate_buster_extension self) (\<lambda>activated.
       if \<not> activated then return False else
       and_then (driver_switch_to_default_content (driver self)) (\<lambda>_.
       and_then (driver_switch_to_frame (driver self) checkbox_iframe) (\<lambda>_.
       wait_for_solution self max_wait_time)))) t))" for t
    apply (intro prefix_and_then grows_switch_to_frame)
    apply (simp add: activate_buster_extension_def grows_activate_buster_extension_for)
    apply (simp add: grows_return)
    apply (intro impI prefix_and_then grows_switch_to_default_content grows_switch_to_frame
       grows_wait_for_solution)
    done
  with Some show ?thesis by simp
qed

lemma first_lookup:
  "\<exists>ev. call_of ev = UntilPresence (wait self) sel
     \<and> prefix (t @ [ev]) (snd (find_challenge_iframe_for self (sel # rest) t))"
proof (cases "until_presence (driver self) t (wait self) sel")
  case (Inr a)
  then show ?thesis
    by (auto simp: stmt_defs intro!: exI [of _ "Returned (UntilPresence (wait self) sel)"])
next
  case (Inl x)
  have "prefix (t @ [Raised (UntilPresence (wait self) sel) x])
          (snd (find_challenge_iframe_for self rest
             (t @ [Raised (UntilPresence (wait self) sel) x])))"
    by (rule grows_find_challenge_iframe_for)
  with Inl show ?thesis
    by (auto simp: stmt_defs intro!: exI [of _ "Raised (UntilPresence (wait self) sel) x"])
qed

lemma prefix_solve_recaptcha:
  "prefix p (snd (solve_recaptcha_try self mw t)) \<Longrightarrow> prefix p (snd (solve_recaptcha self mw t))"
  by (auto simp: solve_recaptcha_def solve_recaptcha_finally_def except_Exception_def
        return_def driver_switch_to_default_content_def perform_def
        split: prod.splits sum.splits)

lemma prefix_nth: "prefix (p @ [ev]) xs \<Longrightarrow> xs ! length p = ev \<and> take (length p) xs = p"
  by (auto simp: prefix_def)

lemma challenge_case:
  assumes "handle_extension_tabs self t = (Inr (), t1)"
    and "until_presence (driver self) t1 (wait self) (CHECKBOX_IFRAME_SELECTOR self)
           = Inr checkbox_iframe"
    and "t2 = t1 @ [Returned (UntilPresence (wait self) (CHECKBOX_IFRAME_SELECTOR self))]"
    and "switch_to_frame (driver self) t2 checkbox_iframe = Inr ()"
    and "t3 = t2 @ [Returned (SwitchToFrame checkbox_iframe)]"
    and "until_clickable (driver self) t3 (wait self) (CHECKBOX_SELECTOR self) = Inr checkbox"
    and "t4 = t3 @ [Returned (UntilClickable (wait self) (CHECKBOX_SELECTOR self))]"
    and "click (driver self) t4 checkbox = Inr ()"
    and "t5 = t4 @ [Returned (Click checkbox), Returned (Sleep 2000)]"
    and "find_element (driver self) t5 (CHECKBOX_CHECKED_SELECTOR self)
           = Inl NoSuchElementException"
    and "t6 = t5 @ [Raised (FindElement (CHECKBOX_CHECKED_SELECTOR self)) NoSuchElementException]"
  shows "solve_recaptcha_try self max_wait_time t =
     and_then (driver_switch_to_default_content (driver self)) (\<lambda>_.
     and_then (find_challenge_iframe self) (\<lambda>challenge.
     case challenge of
       None \<Rightarrow> return False
     | Some challenge_iframe \<Rightarrow>
     and_then (driver_switch_to_frame (driver self) challenge_iframe) (\<lambda>_.
     and_then (activate_buster_extension self) (\<lambda>activated.
     if \<not> activated then return False else
     and_then (driver_switch_to_default_content (driver self)) (\<lambda>_.
     and_then (driver_switch_to_frame (driver self) checkbox_iframe) (\<lambda>_.
     wait_for_solution self max_wait_time)))))) t6"
proof -
  have s2: "find_recaptcha_checkbox_iframe self t1 = (Inr (Some checkbox_iframe), t2)"
    using assms(2,3) by (simp add: find_recaptcha_checkbox_iframe_def stmt_defs)
  have s3: "driver_switch_to_frame (driver self) checkbox_iframe t2 = (Inr (), t3)"
    using assms(4,5) by (simp add: stmt_defs)
  have s4: "click_recaptcha_checkbox self t3 = (Inr True, t4 @ [Returned (Click checkbox)])"
    using assms(6,7,8) by (simp add: click_recaptcha_checkbox_def stmt_defs)
  have s5: "sleep 2000 (t4 @ [Returned (Click checkbox)]) = (Inr (), t5)"
    using assms(9) by (simp add: sleep_def)
  have s6: "is_recaptcha_solved self t5 = (Inr False, t6)"
    using assms(10,11) by (simp add: is_recaptcha_solved_def stmt_defs)
  show ?thesis
    by (simp add: solve_recaptcha_try_def
          and_then_Inr [of "handle_extension_tabs self", OF assms(1)]
          and_then_Inr [of "find_recaptcha_checkbox_iframe self", OF s2]
          and_then_Inr [of "driver_switch_to_frame (driver self) checkbox_iframe", OF s3]
          and_then_Inr [of "click_recaptcha_checkbox self", OF s4]
          and_then_Inr [of "sleep 2000", OF s5]
          and_then_Inr [of "is_recaptcha_solved self", OF s6])
qed

section \<open>Extension tabs\<close>

text \<open>
  Claim C7. \<open>handle_extension_tabs\<close> switches no context when the driver reports
  exactly one window handle: its only call is the read of \<open>window_handles\<close>. When
  the driver reports the handles \<open>hs\<close>, more than one, at both reads of the property,
  the calls are the two reads and one \<open>switch_to.window\<close>, to \<open>hs[0]\<close>, followed by
  the sleep of half a second when the switch returns; whatever the length of \<open>hs\<close>,
  exactly one context operation is issued.
\<close>

theorem handle_extension_tabs_one_switch:
  "(window_handles (driver self) t = Inr [h] \<longrightarrow>
      handle_extension_tabs self t = (Inr (), t @ [Returned WindowHandles]))
   \<and> (1 < length hs \<and> window_handles (driver self) t = Inr hs
        \<and> window_handles (driver self) (t @ [Returned WindowHandles]) = Inr hs \<longrightarrow>
      handle_extension_tabs self t =
        (case switch_to_window (driver self)
                (t @ [Returned WindowHandles, Returned WindowHandles]) (hs ! 0) of
           Inr u \<Rightarrow> (Inr (), t @ [Returned WindowHandles, Returned WindowHandles,
                                  Returned (SwitchToWindow (hs ! 0)), Returned (Sleep 500)])
         | Inl e \<Rightarrow> (Inl e, t @ [Returned WindowHandles, Returned WindowHandles,
                                 Raised (SwitchToWindow (hs ! 0)) e]))
      \<and> length (filter context_op (drop (length t) (snd (handle_extension_tabs self t)))) = 1)"
  by (cases hs) (auto simp: handle_extension_tabs_def stmt_defs split: sum.splits)

theorem handle_extension_tabs_one_switch_witness:
  "handle_extension_tabs (init (verified_on_click [''tab1'']) 10) [] =
     (Inr (), [Returned WindowHandles])
   \<and> handle_extension_tabs (init (verified_on_click [''tab1'', ''tab2'', ''tab3'']) 10) [] =
       (Inr (), [Returned WindowHandles, Returned WindowHandles,
                 Returned (SwitchToWindow ''tab1''), Returned (Sleep 500)])"
  using handle_extension_tabs_one_switch
          [where self = "init (verified_on_click [''tab1'']) 10" and t = "[]"
             and h = "''tab1''" and hs = "[]"]
        handle_extension_tabs_one_switch
          [where self = "init (verified_on_click [''tab1'', ''tab2'', ''tab3'']) 10"
             and t = "[]" and hs = "[''tab1'', ''tab2'', ''tab3'']"]
  by (simp add: init_def verified_on_click_def)

section \<open>Restoring the top-level context\<close>

text \<open>
  Claim C1, as the code has it. Whatever the driver does, the last call of
  \<open>solve_recaptcha\<close> is \<open>switch_to.default_content()\<close>, so the switch to the top
  level is the last context operation on every exit path; and when that last call
  returns, the focus of the session is the top-level context, wherever it was before.
\<close>

theorem solve_recaptcha_ends_with_switch_to_top:
  "snd (solve_recaptcha self max_wait_time t) \<noteq> []
   \<and> call_of (last (snd (solve_recaptcha self max_wait_time t))) = SwitchToDefaultContent
   \<and> (last (snd (solve_recaptcha self max_wait_time t)) = Returned SwitchToDefaultContent \<longrightarrow>
        focus p (snd (solve_recaptcha self max_wait_time t)) = [])"
  by (auto simp: solve_recaptcha_def solve_recaptcha_finally_def focus_snoc
        driver_switch_to_default_content_def perform_def split: prod.splits sum.splits)

theorem solve_recaptcha_ends_with_switch_to_top_witness:
  "last (snd (solve_recaptcha (init (verified_on_click [''tab1'']) 20) 30 [])) =
     Returned SwitchToDefaultContent
   \<and> focus [WebElement 7] (snd (solve_recaptcha (init (verified_on_click [''tab1'']) 20) 30 [])) = []"
proof -
  have h: "last (snd (solve_recaptcha (init (verified_on_click [''tab1'']) 20) 30 [])) =
     Returned SwitchToDefaultContent"
    by (simp add: solver_defs stmt_defs init_def verified_on_click_def)
  show ?thesis
    using h solve_recaptcha_ends_with_switch_to_top
      [where self = "init (verified_on_click [''tab1'']) 20" and max_wait_time = 30
         and t = "[]" and p = "[WebElement 7]"]
    by simp
qed

text \<open>
  Claim C1 as the specification states it fails where the switch of the \<open>finally\<close>
  block raises: the exception is dropped by the bare \<open>except\<close>, \<open>solve_recaptcha\<close>
  returns \<open>False\<close>, and the session is still in the checkbox frame.
\<close>

theorem solve_recaptcha_left_in_frame:
  "solve_recaptcha (init lost_in_frame 20) 30 [] =
     (Inr False,
      [Returned WindowHandles,
       Returned (UntilPresence 20 ''iframe[title='reCAPTCHA']''),
       Returned (SwitchToFrame (WebElement 1)),
       Raised (UntilClickable 20 ''#recaptcha-anchor'') (WebDriverException ''disconnected''),
       Raised SwitchToDefaultContent (WebDriverException ''disconnected'')])
   \<and> focus [] (snd (solve_recaptcha (init lost_in_frame 20) 30 [])) = [WebElement 1]"
  by (simp add: solver_defs stmt_defs init_def lost_in_frame_def focus_def)

section \<open>The stages of one attempt\<close>

text \<open>
  Claim C4. When \<open>find_recaptcha_checkbox_iframe\<close> returns \<open>None\<close>, which it does
  when its one wait for the checkbox iframe times out, \<open>solve_recaptcha\<close> returns
  \<open>False\<close> and the only call it makes after that wait is the
  \<open>switch_to.default_content()\<close> of its \<open>finally\<close> block: no switch into a frame,
  no click, no lookup of the challenge, no activation and no wait for the solution.
\<close>

theorem solve_recaptcha_no_checkbox_iframe:
  assumes "handle_extension_tabs self t = (Inr (), t1)"
    and "find_recaptcha_checkbox_iframe self t1 = (Inr None, t2)"
  shows "t2 = t1 @ [Raised (UntilPresence (wait self) (CHECKBOX_IFRAME_SELECTOR self))
                      TimeoutException]
    \<and> fst (solve_recaptcha self max_wait_time t) = Inr False
    \<and> butlast (snd (solve_recaptcha self max_wait_time t)) = t2
    \<and> call_of (last (snd (solve_recaptcha self max_wait_time t))) = SwitchToDefaultContent"
proof -
  have "solve_recaptcha_try self max_wait_time t = (Inr False, t2)"
    using assms by (simp add: solve_recaptcha_try_def and_then_def return_def)
  then have "solve_recaptcha self max_wait_time t = (Inr False, solve_recaptcha_finally self t2)"
    by (rule solve_recaptcha_of_try)
  moreover have "t2 = t1 @ [Raised (UntilPresence (wait self) (CHECKBOX_IFRAME_SELECTOR self))
                      TimeoutException]"
    using assms(2)
    by (auto simp: find_recaptcha_checkbox_iframe_def stmt_defs split: sum.splits if_splits)
  ultimately show ?thesis by (simp add: finally_shape)
qed

theorem solve_recaptcha_no_checkbox_iframe_witness:
  "fst (solve_recaptcha (init no_widget 20) 30 []) = Inr False
   \<and> butlast (snd (solve_recaptcha (init no_widget 20) 30 [])) =
       [Returned WindowHandles,
        Raised (UntilPresence 20 ''iframe[title='reCAPTCHA']'') TimeoutException]
   \<and> call_of (last (snd (solve_recaptcha (init no_widget 20) 30 []))) = SwitchToDefaultContent"
proof -
  have tabs: "handle_extension_tabs (init no_widget 20) [] = (Inr (), [Returned WindowHandles])"
    by (simp add: handle_extension_tabs_def stmt_defs init_def no_widget_def)
  have missing: "find_recaptcha_checkbox_iframe (init no_widget 20) [Returned WindowHandles] =
      (Inr None, [Returned WindowHandles,
                  Raised (UntilPresence 20 ''iframe[title='reCAPTCHA']'') TimeoutException])"
    by (simp add: find_recaptcha_checkbox_iframe_def stmt_defs init_def no_widget_def)
  show ?thesis
    using solve_recaptcha_no_checkbox_iframe [OF tabs missing, of 30] by simp
qed

text \<open>
  Claim C2. When the checkbox iframe is found and entered, the checkbox is clicked and,
  after the sleep of 2 seconds, \<open>find_element\<close> finds the checked checkbox, then
  \<open>solve_recaptcha\<close> returns \<open>True\<close> and the only call after that query is the
  \<open>switch_to.default_content()\<close> of the \<open>finally\<close> block: the challenge iframe is
  not looked up and Buster is not activated.
\<close>

theorem solve_recaptcha_already_solved:
  assumes "handle_extension_tabs self t = (Inr (), t1)"
    and "until_presence (driver self) t1 (wait self) (CHECKBOX_IFRAME_SELECTOR self)
           = Inr checkbox_iframe"
    and "t2 = t1 @ [Returned (UntilPresence (wait self) (CHECKBOX_IFRAME_SELECTOR self))]"
    and "switch_to_frame (driver self) t2 checkbox_iframe = Inr ()"
    and "t3 = t2 @ [Returned (SwitchToFrame checkbox_iframe)]"
    and "until_clickable (driver self) t3 (wait self) (CHECKBOX_SELECTOR self) = Inr checkbox"
    and "t4 = t3 @ [Returned (UntilClickable (wait self) (CHECKBOX_SELECTOR self))]"
    and "click (driver self) t4 checkbox = Inr ()"
    and "t5 = t4 @ [Returned (Click checkbox), Returned (Sleep 2000)]"
    and "find_element (driver self) t5 (CHECKBOX_CHECKED_SELECTOR self) = Inr verified"
  shows "fst (solve_recaptcha self max_wait_time t) = Inr True
    \<and> butlast (snd (solve_recaptcha self max_wait_time t)) =
        t5 @ [Returned (FindElement (CHECKBOX_CHECKED_SELECTOR self))]
    \<and> call_of (last (snd (solve_recaptcha self max_wait_time t))) = SwitchToDefaultContent"
proof -
  have "solve_recaptcha_try self max_wait_time t =
          (Inr True, t5 @ [Returned (FindElement (CHECKBOX_CHECKED_SELECTOR self))])"
    using assms
    by (simp add: solve_recaptcha_try_def find_recaptcha_checkbox_iframe_def
          click_recaptcha_checkbox_def is_recaptcha_solved_def stmt_defs)
  then have "solve_recaptcha self max_wait_time t =
          (Inr True, solve_recaptcha_finally self
             (t5 @ [Returned (FindElement (CHECKBOX_CHECKED_SELECTOR self))]))"
    by (rule solve_recaptcha_of_try)
  then show ?thesis by (simp add: finally_shape)
qed

theorem solve_recaptcha_already_solved_witness:
  "fst (solve_recaptcha (init (verified_on_click [''tab1'']) 20) 30 []) = Inr True
   \<and> butlast (snd (solve_recaptcha (init (verified_on_click [''tab1'']) 20) 30 [])) =
       [Returned WindowHandles,
        Returned (UntilPresence 20 ''iframe[title='reCAPTCHA']''),
        Returned (SwitchToFrame (WebElement 1)),
        Returned (UntilClickable 20 ''#recaptcha-anchor''),
        Returned (Click (WebElement 2)),
        Returned (Sleep 2000),
        Returned (FindElement ''#recaptcha-anchor[aria-checked='true']'')]
   \<and> call_of (last (snd (solve_recaptcha (init (verified_on_click [''tab1'']) 20) 30 [])))
       = SwitchToDefaultContent"
proof -
  have tabs: "handle_extension_tabs (init (verified_on_click [''tab1'']) 20) [] =
      (Inr (), [Returned WindowHandles])"
    by (simp add: handle_extension_tabs_def stmt_defs init_def verified_on_click_def)
  show ?thesis
    using solve_recaptcha_already_solved [OF tabs _ refl _ refl _ refl _ refl, of "WebElement 1" "WebElement 2" "WebElement 2" 30]
    by (simp add: init_def verified_on_click_def)
qed

text \<open>
  Claim C10. \<open>is_recaptcha_solved\<close> makes one call, \<open>find_element\<close> on the
  checked-state selector, with no wait: it returns \<open>True\<close> exactly when that call
  returns an element and \<open>False\<close> when it raises \<open>NoSuchElementException\<close>.
  \<open>wait_for_solution\<close> makes one call too, a \<open>WebDriverWait\<close> of \<open>max_wait_time\<close>
  seconds for the same selector. So when the query made after the sleep of 2 seconds
  misses, \<open>solve_recaptcha\<close> goes on as for a challenge, whatever the driver would
  answer later: its next call is the switch to the top level and the one after that,
  when the switch returns, the wait for the first challenge iframe selector.
\<close>

theorem is_recaptcha_solved_single_query:
  "is_recaptcha_solved self t =
     (case find_element (driver self) t (CHECKBOX_CHECKED_SELECTOR self) of
        Inr e \<Rightarrow> (Inr True, t @ [Returned (FindElement (CHECKBOX_CHECKED_SELECTOR self))])
      | Inl x \<Rightarrow> (if x = NoSuchElementException then Inr False else Inl x,
                   t @ [Raised (FindElement (CHECKBOX_CHECKED_SELECTOR self)) x]))
   \<and> wait_for_solution self max_wait_time t =
     (case until_presence (driver self) t max_wait_time (CHECKBOX_CHECKED_SELECTOR self) of
        Inr e \<Rightarrow> (Inr True,
                   t @ [Returned (UntilPresence max_wait_time (CHECKBOX_CHECKED_SELECTOR self))])
      | Inl x \<Rightarrow> (if x = TimeoutException then Inr False else Inl x,
                   t @ [Raised (UntilPresence max_wait_time (CHECKBOX_CHECKED_SELECTOR self)) x]))
   \<and> (handle_extension_tabs self t = (Inr (), t1)
      \<and> until_presence (driver self) t1 (wait self) (CHECKBOX_IFRAME_SELECTOR self)
           = Inr checkbox_iframe
      \<and> t2 = t1 @ [Returned (UntilPresence (wait self) (CHECKBOX_IFRAME_SELECTOR self))]
      \<and> switch_to_frame (driver self) t2 checkbox_iframe = Inr ()
      \<and> t3 = t2 @ [Returned (SwitchToFrame checkbox_iframe)]
      \<and> until_clickable (driver self) t3 (wait self) (CHECKBOX_SELECTOR self) = Inr checkbox
      \<and> t4 = t3 @ [Returned (UntilClickable (wait self) (CHECKBOX_SELECTOR self))]
      \<and> click (driver self) t4 checkbox = Inr ()
      \<and> t5 = t4 @ [Returned (Click checkbox), Returned (Sleep 2000)]
      \<and> find_element (driver self) t5 (CHECKBOX_CHECKED_SELECTOR self)
           = Inl NoSuchElementException
      \<and> t6 = t5 @ [Raised (FindElement (CHECKBOX_CHECKED_SELECTOR self)) NoSuchElementException]
      \<longrightarrow>
        take (length t6) (snd (solve_recaptcha self max_wait_time t)) = t6
        \<and> call_of (snd (solve_recaptcha self max_wait_time t) ! length t6)
            = SwitchToDefaultContent
        \<and> (switch_to_default_content (driver self) t6 = Inr ()
             \<and> CHALLENGE_IFRAME_SELECTORS self = sel # rest \<longrightarrow>
           call_of (snd (solve_recaptcha self max_wait_time t) ! (length t6 + 1))
             = UntilPresence (wait self) sel))"
  (is "?A \<and> ?B \<and> (?P \<longrightarrow> ?C)")
proof (intro conjI impI)
  show ?A by (simp add: is_recaptcha_solved_def stmt_defs split: sum.splits)
  show ?B by (simp add: wait_for_solution_def stmt_defs split: sum.splits)
next
  assume P: ?P
  let ?rest = "\<lambda>challenge.
     case challenge of
       None \<Rightarrow> return False
     | Some challenge_iframe \<Rightarrow>
     and_then (driver_switch_to_frame (driver self) challenge_iframe) (\<lambda>_.
     and_then (activate_buster_extension self) (\<lambda>activated.
     if \<not> activated then return False else
     and_then (driver_switch_to_default_content (driver self)) (\<lambda>_.
     and_then (driver_switch_to_frame (driver self) checkbox_iframe) (\<lambda>_.
     wait_for_solution self max_wait_time))))"
  have eq: "solve_recaptcha_try self max_wait_time t =
     and_then (driver_switch_to_default_content (driver self)) (\<lambda>_.
       and_then (find_challenge_iframe self) ?rest) t6"
    using P
    by (intro challenge_case [where ?t1.0 = t1 and ?t2.0 = t2 and ?t3.0 = t3 and ?t4.0 = t4
          and ?t5.0 = t5 and checkbox = checkbox]) (elim conjE, assumption)+
  have rest: "prefix u (snd (and_then (find_challenge_iframe self) ?rest u))" for u
    by (intro prefix_and_then grows_after_challenge_lookup)
       (simp add: find_challenge_iframe_def grows_find_challenge_iframe_for)
  obtain ev where ev: "call_of ev = SwitchToDefaultContent"
    "prefix (t6 @ [ev]) (snd (driver_switch_to_default_content (driver self) t6))"
    by (cases "switch_to_default_content (driver self) t6")
       (auto simp: driver_switch_to_default_content_def perform_def)
  have "prefix (t6 @ [ev]) (snd (solve_recaptcha_try self max_wait_time t))"
    unfolding eq using ev(2) rest by (rule prefix_and_then)
  then have "prefix (t6 @ [ev]) (snd (solve_recaptcha self max_wait_time t))"
    by (rule prefix_solve_recaptcha)
  with ev(1) show "take (length t6) (snd (solve_recaptcha self max_wait_time t)) = t6"
    and "call_of (snd (solve_recaptcha self max_wait_time t) ! length t6)
            = SwitchToDefaultContent"
    by (auto dest: prefix_nth)
next
  assume P: ?P
  assume sw: "switch_to_default_content (driver self) t6 = Inr ()
             \<and> CHALLENGE_IFRAME_SELECTORS self = sel # rest"
  let ?rest = "\<lambda>challenge.
     case challenge of
       None \<Rightarrow> return False
     | Some challenge_iframe \<Rightarrow>
     and_then (driver_switch_to_frame (driver self) challenge_iframe) (\<lambda>_.
     and_then (activate_buster_extension self) (\<lambda>activated.
     if \<not> activated then return False else
     and_then (driver_switch_to_default_content (driver self)) (\<lambda>_.
     and_then (driver_switch_to_frame (driver self) checkbox_iframe) (\<lambda>_.
     wait_for_solution self max_wait_time))))"
  have eq: "solve_recaptcha_try self max_wait_time t =
     and_then (driver_switch_to_default_content (driver self)) (\<lambda>_.
       and_then (find_challenge_iframe self) ?rest) t6"
    using P
    by (intro challenge_case [where ?t1.0 = t1 and ?t2.0 = t2 and ?t3.0 = t3 and ?t4.0 = t4
          and ?t5.0 = t5 and checkbox = checkbox]) (elim conjE, assumption)+
  have sdc: "driver_switch_to_default_content (driver self) t6
               = (Inr (), t6 @ [Returned SwitchToDefaultContent])"
    using sw by (simp add: driver_switch_to_default_content_def perform_def)
  obtain ev where ev: "call_of ev = UntilPresence (wait self) sel"
    "prefix ((t6 @ [Returned SwitchToDefaultContent]) @ [ev])
       (snd (find_challenge_iframe self (t6 @ [Returned SwitchToDefaultContent])))"
    using first_lookup [of self sel "t6 @ [Returned SwitchToDefaultContent]" rest] sw
    by (auto simp: find_challenge_iframe_def)
  have "prefix ((t6 @ [Returned SwitchToDefaultContent]) @ [ev])
          (snd (solve_recaptcha_try self max_wait_time t))"
    unfolding eq and_then_Inr [of "driver_switch_to_default_content (driver self)", OF sdc]
    using ev(2) by (rule prefix_and_then) (rule grows_after_challenge_lookup)
  then have "prefix ((t6 @ [Returned SwitchToDefaultContent]) @ [ev])
          (snd (solve_recaptcha self max_wait_time t))"
    by (rule prefix_solve_recaptcha)
  from prefix_nth [OF this] ev(1)
  show "call_of (snd (solve_recaptcha self max_wait_time t) ! (length t6 + 1))
             = UntilPresence (wait self) sel"
    by simp
qed

theorem is_recaptcha_solved_single_query_witness:
  "is_recaptcha_solved (init challenge_page 20)
      [Returned (Click (WebElement 2)), Returned (Sleep 2000)] =
     (Inr False, [Returned (Click (WebElement 2)), Returned (Sleep 2000),
        Raised (FindElement ''#recaptcha-anchor[aria-checked='true']'') NoSuchElementException])
   \<and> call_of (snd (solve_recaptcha (init challenge_page 20) 30 []) ! 7) = SwitchToDefaultContent
   \<and> call_of (snd (solve_recaptcha (init challenge_page 20) 30 []) ! 8) =
       UntilPresence 20 ''iframe[title='recaptcha challenge expires in two minutes']''"
proof -
  have tabs: "handle_extension_tabs (init challenge_page 20) [] =
      (Inr (), [Returned WindowHandles])"
    by (simp add: handle_extension_tabs_def stmt_defs init_def challenge_page_def)
  have query: "is_recaptcha_solved (init challenge_page 20)
      [Returned (Click (WebElement 2)), Returned (Sleep 2000)] =
     (Inr False, [Returned (Click (WebElement 2)), Returned (Sleep 2000),
        Raised (FindElement ''#recaptcha-anchor[aria-checked='true']'') NoSuchElementException])"
    using is_recaptcha_solved_single_query [where self = "init challenge_page 20"
        and t = "[Returned (Click (WebElement 2)), Returned (Sleep 2000)]", THEN conjunct1]
    by (simp add: init_def challenge_page_def)
  have "call_of (snd (solve_recaptcha (init challenge_page 20) 30 []) ! 7) = SwitchToDefaultContent
   \<and> call_of (snd (solve_recaptcha (init challenge_page 20) 30 []) ! 8) =
       UntilPresence 20 ''iframe[title='recaptcha challenge expires in two minutes']''"
    using is_recaptcha_solved_single_query [where self = "init challenge_page 20" and t = "[]" and max_wait_time = 30
        and ?t1.0 = "[Returned WindowHandles]"
        and checkbox_iframe = "WebElement 1" and checkbox = "WebElement 2"
        and ?t2.0 = "[Returned WindowHandles,
                      Returned (UntilPresence 20 ''iframe[title='reCAPTCHA']'')]"
        and ?t3.0 = "[Returned WindowHandles,
                      Returned (UntilPresence 20 ''iframe[title='reCAPTCHA']''),
                      Returned (SwitchToFrame (WebElement 1))]"
        and ?t4.0 = "[Returned WindowHandles,
                      Returned (UntilPresence 20 ''iframe[title='reCAPTCHA']''),
                      Returned (SwitchToFrame (WebElement 1)),
                      Returned (UntilClickable 20 ''#recaptcha-anchor'')]"
        and ?t5.0 = "[Returned WindowHandles,
                      Returned (UntilPresence 20 ''iframe[title='reCAPTCHA']''),
                      Returned (SwitchToFrame (WebElement 1)),
                      Returned (UntilClickable 20 ''#recaptcha-anchor''),
                      Returned (Click (WebElement 2)), Returned (Sleep 2000)]"
        and ?t6.0 = "[Returned WindowHandles,
                      Returned (UntilPresence 20 ''iframe[title='reCAPTCHA']''),
                      Returned (SwitchToFrame (WebElement 1)),
                      Returned (UntilClickable 20 ''#recaptcha-anchor''),
                      Returned (Click (WebElement 2)), Returned (Sleep 2000),
                      Raised (FindElement ''#recaptcha-anchor[aria-checked='true']'')
                        NoSuchElementException]"
        and sel = "''iframe[title='recaptcha challenge expires in two minutes']''"
        and rest = "[''iframe[title='recaptcha challenge']'', ''iframe[src*='bframe']'']",
        THEN conjunct2, THEN conjunct2]
      tabs
    by (simp add: solver_defs stmt_defs init_def challenge_page_def)
  with query show ?thesis by simp
qed

section \<open>Selector lists\<close>

lemma find_challenge_iframe_for_misses:
  "\<forall>i<length pre.
      until_presence (driver self) (t @ presence_misses (wait self) (take i pre)) (wait self)
        (pre ! i) = Inl TimeoutException \<Longrightarrow>
   find_challenge_iframe_for self (pre @ post) t =
     find_challenge_iframe_for self post (t @ presence_misses (wait self) pre)"
proof (induction pre arbitrary: t)
  case Nil
  show ?case by (simp add: presence_misses_def)
next
  case (Cons sel pre)
  let ?t' = "t @ [Raised (UntilPresence (wait self) sel) TimeoutException]"
  from Cons.prems have first:
    "until_presence (driver self) t (wait self) sel = Inl TimeoutException"
    by (auto simp: presence_misses_def dest: spec [of _ 0])
  have "\<forall>i<length pre.
      until_presence (driver self) (?t' @ presence_misses (wait self) (take i pre)) (wait self)
        (pre ! i) = Inl TimeoutException"
  proof (intro allI impI)
    fix i assume "i < length pre"
    then have "Suc i < length (sel # pre)" by simp
    with Cons.prems show "until_presence (driver self)
        (?t' @ presence_misses (wait self) (take i pre)) (wait self) (pre ! i)
          = Inl TimeoutException"
      by (auto simp: presence_misses_def dest: spec [of _ "Suc i"])
  qed
  then have "find_challenge_iframe_for self (pre @ post) ?t' =
     find_challenge_iframe_for self post (?t' @ presence_misses (wait self) pre)"
    by (rule Cons.IH)
  with first show ?case
    by (simp add: stmt_defs presence_misses_def)
qed

lemma activate_buster_extension_for_misses:
  "\<forall>i<length pre.
      until_clickable (driver self) (t @ clickable_misses (wait self) (take i pre)) (wait self)
        (pre ! i) = Inl TimeoutException \<Longrightarrow>
   activate_buster_extension_for self (pre @ post) t =
     activate_buster_extension_for self post (t @ clickable_misses (wait self) pre)"
proof (induction pre arbitrary: t)
  case Nil
  show ?case by (simp add: clickable_misses_def)
next
  case (Cons sel pre)
  let ?t' = "t @ [Raised (UntilClickable (wait self) sel) TimeoutException]"
  from Cons.prems have first:
    "until_clickable (driver self) t (wait self) sel = Inl TimeoutException"
    by (auto simp: clickable_misses_def dest: spec [of _ 0])
  have "\<forall>i<length pre.
      until_clickable (driver self) (?t' @ clickable_misses (wait self) (take i pre)) (wait self)
        (pre ! i) = Inl TimeoutException"
  proof (intro allI impI)
    fix i assume "i < length pre"
    then have "Suc i < length (sel # pre)" by simp
    with Cons.prems show "until_clickable (driver self)
        (?t' @ clickable_misses (wait self) (take i pre)) (wait self) (pre ! i)
          = Inl TimeoutException"
      by (auto simp: clickable_misses_def dest: spec [of _ "Suc i"])
  qed
  then have "activate_buster_extension_for self (pre @ post) ?t' =
     activate_buster_extension_for self post (?t' @ clickable_misses (wait self) pre)"
    by (rule Cons.IH)
  with first show ?case
    by (simp add: stmt_defs clickable_misses_def)
qed

lemma find_challenge_iframe_for_match:
  "until_presence (driver self) t (wait self) sel = Inr iframe \<Longrightarrow>
   find_challenge_iframe_for self (sel # post) t =
     (Inr (Some iframe), t @ [Returned (UntilPresence (wait self) sel)])"
  by (simp add: stmt_defs)

lemma activate_buster_extension_for_match:
  "until_clickable (driver self) t (wait self) sel = Inr button \<Longrightarrow>
   click (driver self)
     (t @ [Returned (UntilClickable (wait self) sel), Returned (Sleep 5000)]) button = Inr () \<Longrightarrow>
   activate_buster_extension_for self (sel # post) t =
     (Inr True, t @ [Returned (UntilClickable (wait self) sel), Returned (Sleep 5000),
                     Returned (Click button)])"
  by (simp add: stmt_defs)

lemma activate_buster_extension_for_click_raises:
  "until_clickable (driver self) t (wait self) sel = Inr button \<Longrightarrow>
   click (driver self)
     (t @ [Returned (UntilClickable (wait self) sel), Returned (Sleep 5000)]) button = Inl x \<Longrightarrow>
   activate_buster_extension_for self (sel # post) t =
     (if x = TimeoutException
      then activate_buster_extension_for self post
             (t @ [Returned (UntilClickable (wait self) sel), Returned (Sleep 5000),
                   Raised (Click button) x])
      else (Inl x, t @ [Returned (UntilClickable (wait self) sel), Returned (Sleep 5000),
                        Raised (Click button) x]))"
  by (simp add: stmt_defs)

text \<open>
  Claim C5, as the code has it. \<open>find_challenge_iframe\<close> and
  \<open>activate_buster_extension\<close> try their selectors in the order of the list, each
  under its own wait of \<open>self.wait\<close>. If the selectors \<open>pre\<close> time out one after the
  other and the next one, \<open>sel\<close>, matches, \<open>find_challenge_iframe\<close> returns the
  element and the selectors after \<open>sel\<close> are not tried. \<open>activate_buster_extension\<close>
  returns \<open>True\<close> at \<open>sel'\<close> when its click on the element returns; when that click
  raises \<open>TimeoutException\<close>, which the \<open>try\<close> block around the wait and the click
  catches too, the loop goes on with the selectors after \<open>sel'\<close>. If every selector
  times out, the result is \<open>None\<close>, respectively \<open>False\<close>, and not an exception.
  This holds for every list of selectors the solver is given.
\<close>

theorem selectors_tried_in_order:
  "(CHALLENGE_IFRAME_SELECTORS self = pre @ sel # post
    \<and> (\<forall>i<length pre.
          until_presence (driver self) (t @ presence_misses (wait self) (take i pre))
            (wait self) (pre ! i) = Inl TimeoutException)
    \<and> until_presence (driver self) (t @ presence_misses (wait self) pre) (wait self) sel
        = Inr iframe \<longrightarrow>
      find_challenge_iframe self t =
        (Inr (Some iframe),
         t @ presence_misses (wait self) pre @ [Returned (UntilPresence (wait self) sel)]))
   \<and> ((\<forall>i<length (CHALLENGE_IFRAME_SELECTORS self).
          until_presence (driver self)
            (t @ presence_misses (wait self) (take i (CHALLENGE_IFRAME_SELECTORS self)))
            (wait self) (CHALLENGE_IFRAME_SELECTORS self ! i) = Inl TimeoutException) \<longrightarrow>
      find_challenge_iframe self t =
        (Inr None, t @ presence_misses (wait self) (CHALLENGE_IFRAME_SELECTORS self)))
   \<and> (BUSTER_BUTTON_SELECTORS self = pre' @ sel' # post'
    \<and> (\<forall>i<length pre'.
          until_clickable (driver self) (t @ clickable_misses (wait self) (take i pre'))
            (wait self) (pre' ! i) = Inl TimeoutException)
    \<and> until_clickable (driver self) (t @ clickable_misses (wait self) pre') (wait self) sel'
        = Inr button
    \<and> click (driver self)
        (t @ clickable_misses (wait self) pre'
           @ [Returned (UntilClickable (wait self) sel'), Returned (Sleep 5000)]) button
        = Inr () \<longrightarrow>
      activate_buster_extension self t =
        (Inr True,
         t @ clickable_misses (wait self) pre'
           @ [Returned (UntilClickable (wait self) sel'), Returned (Sleep 5000),
              Returned (Click button)]))
   \<and> ((\<forall>i<length (BUSTER_BUTTON_SELECTORS self).
          until_clickable (driver self)
            (t @ clickable_misses (wait self) (take i (BUSTER_BUTTON_SELECTORS self)))
            (wait self) (BUSTER_BUTTON_SELECTORS self ! i) = Inl TimeoutException) \<longrightarrow>
      activate_buster_extension self t =
        (Inr False, t @ clickable_misses (wait self) (BUSTER_BUTTON_SELECTORS self)))
   \<and> (BUSTER_BUTTON_SELECTORS self = pre' @ sel' # post'
    \<and> (\<forall>i<length pre'.
          until_clickable (driver self) (t @ clickable_misses (wait self) (take i pre'))
            (wait self) (pre' ! i) = Inl TimeoutException)
    \<and> until_clickable (driver self) (t @ clickable_misses (wait self) pre') (wait self) sel'
        = Inr button
    \<and> click (driver self)
        (t @ clickable_misses (wait self) pre'
           @ [Returned (UntilClickable (wait self) sel'), Returned (Sleep 5000)]) button
        = Inl TimeoutException \<longrightarrow>
      activate_buster_extension self t =
        activate_buster_extension_for self post'
          (t @ clickable_misses (wait self) pre'
             @ [Returned (UntilClickable (wait self) sel'), Returned (Sleep 5000),
                Raised (Click button) TimeoutException]))"
  (is "(?P1 \<longrightarrow> ?C1) \<and> (?P2 \<longrightarrow> ?C2) \<and> (?P3 \<longrightarrow> ?C3) \<and> (?P4 \<longrightarrow> ?C4)
       \<and> (?P5 \<longrightarrow> ?C5)")
proof (intro conjI impI)
  assume ?P5
  then show ?C5
    using activate_buster_extension_for_misses [of pre' self t "sel' # post'"]
      activate_buster_extension_for_click_raises
        [of self "t @ clickable_misses (wait self) pre'" sel' button TimeoutException post']
    by (simp add: activate_buster_extension_def)
next
  assume ?P1
  then show ?C1
    using find_challenge_iframe_for_misses [of pre self t "sel # post"]
      find_challenge_iframe_for_match
        [of self "t @ presence_misses (wait self) pre" sel iframe post]
    by (simp add: find_challenge_iframe_def)
next
  assume ?P2
  then show ?C2
    using find_challenge_iframe_for_misses [of "CHALLENGE_IFRAME_SELECTORS self" self t "[]"]
    by (simp add: find_challenge_iframe_def return_def)
next
  assume ?P3
  then show ?C3
    using activate_buster_extension_for_misses [of pre' self t "sel' # post'"]
      activate_buster_extension_for_match
        [of self "t @ clickable_misses (wait self) pre'" sel' button post']
    by (simp add: activate_buster_extension_def)
next
  assume ?P4
  then show ?C4
    using activate_buster_extension_for_misses [of "BUSTER_BUTTON_SELECTORS self" self t "[]"]
    by (simp add: activate_buster_extension_def return_def)
qed

theorem selectors_tried_in_order_witness:
  "find_challenge_iframe (init challenge_page 20) [] =
     (Inr (Some (WebElement 3)),
      [Raised (UntilPresence 20 ''iframe[title='recaptcha challenge expires in two minutes']'')
         TimeoutException,
       Returned (UntilPresence 20 ''iframe[title='recaptcha challenge']'')])
   \<and> find_challenge_iframe (init no_widget 20) [] =
     (Inr None,
      [Raised (UntilPresence 20 ''iframe[title='recaptcha challenge expires in two minutes']'')
         TimeoutException,
       Raised (UntilPresence 20 ''iframe[title='recaptcha challenge']'') TimeoutException,
       Raised (UntilPresence 20 ''iframe[src*='bframe']'') TimeoutException])
   \<and> activate_buster_extension (init challenge_page 20) [] =
     (Inr True,
      [Raised (UntilClickable 20 ''div.help-button-holder'') TimeoutException,
       Raised (UntilClickable 20 ''.help-button-holder'') TimeoutException,
       Returned (UntilClickable 20 ''[class*='help-button']''),
       Returned (Sleep 5000), Returned (Click (WebElement 4))])
   \<and> activate_buster_extension (init no_widget 20) [] =
     (Inr False,
      [Raised (UntilClickable 20 ''div.help-button-holder'') TimeoutException,
       Raised (UntilClickable 20 ''.help-button-holder'') TimeoutException,
       Raised (UntilClickable 20 ''[class*='help-button']'') TimeoutException])
   \<and> activate_buster_extension (init click_times_out 20) [] =
     activate_buster_extension_for (init click_times_out 20)
       [''.help-button-holder'', ''[class*='help-button']'']
       [Returned (UntilClickable 20 ''div.help-button-holder''), Returned (Sleep 5000),
        Raised (Click (WebElement 4)) TimeoutException]"
proof -
  have found: "find_challenge_iframe (init challenge_page 20) [] =
     (Inr (Some (WebElement 3)),
      [Raised (UntilPresence 20 ''iframe[title='recaptcha challenge expires in two minutes']'')
         TimeoutException,
       Returned (UntilPresence 20 ''iframe[title='recaptcha challenge']'')])"
    using selectors_tried_in_order [where self = "init challenge_page 20" and t = "[]"
        and pre = "[''iframe[title='recaptcha challenge expires in two minutes']'']"
        and sel = "''iframe[title='recaptcha challenge']''"
        and post = "[''iframe[src*='bframe']'']" and iframe = "WebElement 3",
        THEN conjunct1]
    by (simp add: init_def challenge_page_def presence_misses_def)
  have missing: "find_challenge_iframe (init no_widget 20) [] =
     (Inr None,
      [Raised (UntilPresence 20 ''iframe[title='recaptcha challenge expires in two minutes']'')
         TimeoutException,
       Raised (UntilPresence 20 ''iframe[title='recaptcha challenge']'') TimeoutException,
       Raised (UntilPresence 20 ''iframe[src*='bframe']'') TimeoutException])"
    using selectors_tried_in_order [where self = "init no_widget 20" and t = "[]",
        THEN conjunct2, THEN conjunct1]
    by (simp add: init_def no_widget_def presence_misses_def)
  have activated: "activate_buster_extension (init challenge_page 20) [] =
     (Inr True,
      [Raised (UntilClickable 20 ''div.help-button-holder'') TimeoutException,
       Raised (UntilClickable 20 ''.help-button-holder'') TimeoutException,
       Returned (UntilClickable 20 ''[class*='help-button']''),
       Returned (Sleep 5000), Returned (Click (WebElement 4))])"
    using selectors_tried_in_order [where self = "init challenge_page 20" and t = "[]"
        and pre' = "[''div.help-button-holder'', ''.help-button-holder'']"
        and sel' = "''[class*='help-button']''" and post' = "[]" and button = "WebElement 4",
        THEN conjunct2, THEN conjunct2, THEN conjunct1]
    by (simp add: init_def challenge_page_def clickable_misses_def less_Suc_eq)
  have no_button: "activate_buster_extension (init no_widget 20) [] =
     (Inr False,
      [Raised (UntilClickable 20 ''div.help-button-holder'') TimeoutException,
       Raised (UntilClickable 20 ''.help-button-holder'') TimeoutException,
       Raised (UntilClickable 20 ''[class*='help-button']'') TimeoutException])"
    using selectors_tried_in_order [where self = "init no_widget 20" and t = "[]",
        THEN conjunct2, THEN conjunct2, THEN conjunct2, THEN conjunct1]
    by (simp add: init_def no_widget_def clickable_misses_def)
  have goes_on: "activate_buster_extension (init click_times_out 20) [] =
     activate_buster_extension_for (init click_times_out 20)
       [''.help-button-holder'', ''[class*='help-button']'']
       [Returned (UntilClickable 20 ''div.help-button-holder''), Returned (Sleep 5000),
        Raised (Click (WebElement 4)) TimeoutException]"
    using selectors_tried_in_order [where self = "init click_times_out 20" and t = "[]"
        and pre' = "[]" and sel' = "''div.help-button-holder''"
        and post' = "[''.help-button-holder'', ''[class*='help-button']'']"
        and button = "WebElement 4",
        THEN conjunct2, THEN conjunct2, THEN conjunct2, THEN conjunct2]
    by (simp add: init_def click_times_out_def clickable_misses_def)
  from found missing activated no_button goes_on show ?thesis by simp
qed

text \<open>
  Claim C5 as the specification states it fails for \<open>activate_buster_extension\<close>
  where the click times out: the first selector matches, and so do the other two, yet
  the function does not return at any of them and its result is \<open>False\<close>.
\<close>

theorem activate_buster_extension_goes_on_after_match:
  "activate_buster_extension (init click_times_out 20) [] =
     (Inr False,
      [Returned (UntilClickable 20 ''div.help-button-holder''), Returned (Sleep 5000),
       Raised (Click (WebElement 4)) TimeoutException,
       Returned (UntilClickable 20 ''.help-button-holder''), Returned (Sleep 5000),
       Raised (Click (WebElement 4)) TimeoutException,
       Returned (UntilClickable 20 ''[class*='help-button']''), Returned (Sleep 5000),
       Raised (Click (WebElement 4)) TimeoutException])"
  by (simp add: activate_buster_extension_def stmt_defs init_def click_times_out_def)

lemma delayed_clicks_append:
  "delayed_clicks prev (xs @ ys) =
     (delayed_clicks prev xs \<and> delayed_clicks (last (prev # xs)) ys)"
  by (induction xs arbitrary: prev) auto

lemma drop_grown:
  "prefix (t @ xs) T \<Longrightarrow> drop (length t) T = xs @ drop (length (t @ xs)) T"
  by (auto simp: prefix_def)

lemma delayed_clicks_for:
  "delayed_clicks prev (drop (length t) (snd (activate_buster_extension_for self sels t)))"
proof (induction sels arbitrary: t prev)
  case Nil
  show ?case by (simp add: return_def)
next
  case (Cons sel sels)
  let ?w = "Returned (UntilClickable (wait self) sel)"
  have rest: "delayed_clicks p
      (drop (length t) (snd (activate_buster_extension_for self sels (t @ xs))))
    = (delayed_clicks p xs \<and> delayed_clicks (last (p # xs))
         (drop (length (t @ xs)) (snd (activate_buster_extension_for self sels (t @ xs)))))"
    for p xs
    using drop_grown [OF grows_activate_buster_extension_for [of "t @ xs" self sels]]
    by (simp only: delayed_clicks_append)
  show ?case
  proof (cases "until_clickable (driver self) t (wait self) sel")
    case (Inl x)
    show ?thesis
    proof (cases "x = TimeoutException")
      case True
      with Inl have "activate_buster_extension_for self (sel # sels) t =
          activate_buster_extension_for self sels
            (t @ [Raised (UntilClickable (wait self) sel) TimeoutException])"
        by (simp add: stmt_defs)
      then show ?thesis
        using Cons.IH [of "Raised (UntilClickable (wait self) sel) TimeoutException"
                "t @ [Raised (UntilClickable (wait self) sel) TimeoutException]"]
        by (simp add: rest)
    next
      case False
      with Inl show ?thesis by (simp add: stmt_defs)
    qed
  next
    case (Inr button)
    let ?t2 = "t @ [?w, Returned (Sleep 5000)]"
    show ?thesis
    proof (cases "click (driver self) ?t2 button")
      case (Inr u)
      with \<open>until_clickable (driver self) t (wait self) sel = Inr button\<close>
      show ?thesis by (simp add: stmt_defs)
    next
      case (Inl x)
      show ?thesis
      proof (cases "x = TimeoutException")
        case True
        with Inl \<open>until_clickable (driver self) t (wait self) sel = Inr button\<close>
        have "activate_buster_extension_for self (sel # sels) t =
          activate_buster_extension_for self sels
            (t @ [?w, Returned (Sleep 5000), Raised (Click button) TimeoutException])"
          by (simp add: stmt_defs)
        then show ?thesis
          using Cons.IH [of "Raised (Click button) TimeoutException"
                  "t @ [?w, Returned (Sleep 5000), Raised (Click button) TimeoutException]"]
          by (simp add: rest)
      next
        case False
        with Inl \<open>until_clickable (driver self) t (wait self) sel = Inr button\<close>
        show ?thesis by (simp add: stmt_defs)
      qed
    qed
  qed
qed

text \<open>
  Claim C8, as the code has it. In every run of \<open>activate_buster_extension\<close>, a click
  is only ever issued right after the sleep of 5 seconds has returned. When the
  selectors \<open>pre\<close> time out and the button is clickable under \<open>sel\<close>, the calls that
  follow are that wait, the sleep of 5 seconds and the click, in this order. The result
  is \<open>True\<close> when the click returns; when the click raises \<open>TimeoutException\<close> the
  loop goes on with the selectors after \<open>sel\<close>, and any other exception of the click
  is raised by the function. When no selector becomes clickable, the result is
  \<open>False\<close> and nothing is clicked.
\<close>

theorem activate_buster_extension_waits_before_click:
  "delayed_clicks prev (drop (length t) (snd (activate_buster_extension self t)))
   \<and> (BUSTER_BUTTON_SELECTORS self = pre @ sel # post
    \<and> (\<forall>i<length pre.
          until_clickable (driver self) (t @ clickable_misses (wait self) (take i pre))
            (wait self) (pre ! i) = Inl TimeoutException)
    \<and> until_clickable (driver self) (t @ clickable_misses (wait self) pre) (wait self) sel
        = Inr button
    \<and> click (driver self)
        (t @ clickable_misses (wait self) pre
           @ [Returned (UntilClickable (wait self) sel), Returned (Sleep 5000)]) button
        = Inr () \<longrightarrow>
      activate_buster_extension self t =
        (Inr True,
         t @ clickable_misses (wait self) pre
           @ [Returned (UntilClickable (wait self) sel), Returned (Sleep 5000),
              Returned (Click button)]))
   \<and> ((\<forall>i<length (BUSTER_BUTTON_SELECTORS self).
          until_clickable (driver self)
            (t @ clickable_misses (wait self) (take i (BUSTER_BUTTON_SELECTORS self)))
            (wait self) (BUSTER_BUTTON_SELECTORS self ! i) = Inl TimeoutException) \<longrightarrow>
      activate_buster_extension self t =
        (Inr False, t @ clickable_misses (wait self) (BUSTER_BUTTON_SELECTORS self)))
   \<and> (BUSTER_BUTTON_SELECTORS self = pre @ sel # post
    \<and> (\<forall>i<length pre.
          until_clickable (driver self) (t @ clickable_misses (wait self) (take i pre))
            (wait self) (pre ! i) = Inl TimeoutException)
    \<and> until_clickable (driver self) (t @ clickable_misses (wait self) pre) (wait self) sel
        = Inr button
    \<and> click (driver self)
        (t @ clickable_misses (wait self) pre
           @ [Returned (UntilClickable (wait self) sel), Returned (Sleep 5000)]) button
        = Inl x \<longrightarrow>
      activate_buster_extension self t =
        (if x = TimeoutException
         then activate_buster_extension_for self post
                (t @ clickable_misses (wait self) pre
                   @ [Returned (UntilClickable (wait self) sel), Returned (Sleep 5000),
                      Raised (Click button) x])
         else (Inl x,
               t @ clickable_misses (wait self) pre
                 @ [Returned (UntilClickable (wait self) sel), Returned (Sleep 5000),
                    Raised (Click button) x])))"
  (is "?D \<and> (?P1 \<longrightarrow> ?C1) \<and> (?P2 \<longrightarrow> ?C2) \<and> (?P3 \<longrightarrow> ?C3)")
proof (intro conjI impI)
  assume ?P3
  then show ?C3
    using activate_buster_extension_for_misses [of pre self t "sel # post"]
      activate_buster_extension_for_click_raises
        [of self "t @ clickable_misses (wait self) pre" sel button x post]
    by (simp add: activate_buster_extension_def)
next
  show ?D by (simp add: activate_buster_extension_def delayed_clicks_for)
next
  assume ?P1
  then show ?C1
    using activate_buster_extension_for_misses [of pre self t "sel # post"]
      activate_buster_extension_for_match
        [of self "t @ clickable_misses (wait self) pre" sel button post]
    by (simp add: activate_buster_extension_def)
next
  assume ?P2
  then show ?C2
    using activate_buster_extension_for_misses [of "BUSTER_BUTTON_SELECTORS self" self t "[]"]
    by (simp add: activate_buster_extension_def return_def)
qed

theorem activate_buster_extension_waits_before_click_witness:
  "delayed_clicks (Returned (SwitchToFrame (WebElement 3)))
     [Raised (UntilClickable 20 ''div.help-button-holder'') TimeoutException,
      Raised (UntilClickable 20 ''.help-button-holder'') TimeoutException,
      Returned (UntilClickable 20 ''[class*='help-button']''),
      Returned (Sleep 5000), Returned (Click (WebElement 4))]
   \<and> activate_buster_extension (init challenge_page 20) [Returned (SwitchToFrame (WebElement 3))] =
     (Inr True,
      [Returned (SwitchToFrame (WebElement 3)),
       Raised (UntilClickable 20 ''div.help-button-holder'') TimeoutException,
       Raised (UntilClickable 20 ''.help-button-holder'') TimeoutException,
       Returned (UntilClickable 20 ''[class*='help-button']''),
       Returned (Sleep 5000), Returned (Click (WebElement 4))])
   \<and> activate_buster_extension (init no_widget 20) [] =
     (Inr False,
      [Raised (UntilClickable 20 ''div.help-button-holder'') TimeoutException,
       Raised (UntilClickable 20 ''.help-button-holder'') TimeoutException,
       Raised (UntilClickable 20 ''[class*='help-button']'') TimeoutException])
   \<and> activate_buster_extension (init click_times_out 20) [] =
     activate_buster_extension_for (init click_times_out 20)
       [''.help-button-holder'', ''[class*='help-button']'']
       [Returned (UntilClickable 20 ''div.help-button-holder''), Returned (Sleep 5000),
        Raised (Click (WebElement 4)) TimeoutException]
   \<and> activate_buster_extension (init click_intercepted 20) [] =
     (Inl (WebDriverException ''element click intercepted''),
      [Returned (UntilClickable 20 ''div.help-button-holder''), Returned (Sleep 5000),
       Raised (Click (WebElement 4)) (WebDriverException ''element click intercepted'')])"
proof -
  have activated: "activate_buster_extension (init challenge_page 20)
       [Returned (SwitchToFrame (WebElement 3))] =
     (Inr True,
      [Returned (SwitchToFrame (WebElement 3)),
       Raised (UntilClickable 20 ''div.help-button-holder'') TimeoutException,
       Raised (UntilClickable 20 ''.help-button-holder'') TimeoutException,
       Returned (UntilClickable 20 ''[class*='help-button']''),
       Returned (Sleep 5000), Returned (Click (WebElement 4))])"
    using activate_buster_extension_waits_before_click [where self = "init challenge_page 20"
        and t = "[Returned (SwitchToFrame (WebElement 3))]"
        and pre = "[''div.help-button-holder'', ''.help-button-holder'']"
        and sel = "''[class*='help-button']''" and post = "[]" and button = "WebElement 4",
        THEN conjunct2, THEN conjunct1]
    by (simp add: init_def challenge_page_def clickable_misses_def less_Suc_eq)
  have delayed: "delayed_clicks (Returned (SwitchToFrame (WebElement 3)))
      (drop (length [Returned (SwitchToFrame (WebElement 3))])
         (snd (activate_buster_extension (init challenge_page 20)
            [Returned (SwitchToFrame (WebElement 3))])))"
    using activate_buster_extension_waits_before_click [where self = "init challenge_page 20"
        and t = "[Returned (SwitchToFrame (WebElement 3))]", THEN conjunct1] .
  have no_button: "activate_buster_extension (init no_widget 20) [] =
     (Inr False,
      [Raised (UntilClickable 20 ''div.help-button-holder'') TimeoutException,
       Raised (UntilClickable 20 ''.help-button-holder'') TimeoutException,
       Raised (UntilClickable 20 ''[class*='help-button']'') TimeoutException])"
    using activate_buster_extension_waits_before_click [where self = "init no_widget 20" and t = "[]",
        THEN conjunct2, THEN conjunct2, THEN conjunct1]
    by (simp add: init_def no_widget_def clickable_misses_def)
  have timed_out: "activate_buster_extension (init click_times_out 20) [] =
     activate_buster_extension_for (init click_times_out 20)
       [''.help-button-holder'', ''[class*='help-button']'']
       [Returned (UntilClickable 20 ''div.help-button-holder''), Returned (Sleep 5000),
        Raised (Click (WebElement 4)) TimeoutException]"
    using activate_buster_extension_waits_before_click
       [where self = "init click_times_out 20" and t = "[]"
        and pre = "[]" and sel = "''div.help-button-holder''"
        and post = "[''.help-button-holder'', ''[class*='help-button']'']"
        and button = "WebElement 4" and x = TimeoutException,
        THEN conjunct2, THEN conjunct2, THEN conjunct2]
    by (simp add: init_def click_times_out_def clickable_misses_def)
  have intercepted: "activate_buster_extension (init click_intercepted 20) [] =
     (Inl (WebDriverException ''element click intercepted''),
      [Returned (UntilClickable 20 ''div.help-button-holder''), Returned (Sleep 5000),
       Raised (Click (WebElement 4)) (WebDriverException ''element click intercepted'')])"
    using activate_buster_extension_waits_before_click
       [where self = "init click_intercepted 20" and t = "[]"
        and pre = "[]" and sel = "''div.help-button-holder''"
        and post = "[''.help-button-holder'', ''[class*='help-button']'']"
        and button = "WebElement 4" and x = "WebDriverException ''element click intercepted''",
        THEN conjunct2, THEN conjunct2, THEN conjunct2]
    by (simp add: init_def click_intercepted_def clickable_misses_def)
  from delayed activated no_button timed_out intercepted show ?thesis by simp
qed

text \<open>
  Claim C8 as the specification states it fails where the click raises: the first
  selector becomes clickable and the click is issued after the sleep of 5 seconds, but
  the function does not return \<open>True\<close>. An intercepted click is raised to the caller; a
  click that times out sends the loop on to the next selectors, and here to the result
  \<open>False\<close>, although the button was clickable under every selector.
\<close>

theorem activate_buster_extension_click_raises:
  "activate_buster_extension (init click_intercepted 20) [Returned (SwitchToFrame (WebElement 3))] =
     (Inl (WebDriverException ''element click intercepted''),
      [Returned (SwitchToFrame (WebElement 3)),
       Returned (UntilClickable 20 ''div.help-button-holder''), Returned (Sleep 5000),
       Raised (Click (WebElement 4)) (WebDriverException ''element click intercepted'')])
   \<and> fst (activate_buster_extension (init click_times_out 20)
          [Returned (SwitchToFrame (WebElement 3))]) = Inr False"
  by (simp add: activate_buster_extension_def stmt_defs init_def click_intercepted_def
        click_times_out_def)

section \<open>The retry loop\<close>

text \<open>
  Claim C9. With \<open>max_attempts \<le> 0\<close> the loop of \<open>solve_all_recaptchas\<close> is not
  entered: the result is \<open>False\<close>, \<open>attempts\<close> is still 0 and the trace is the one
  the call started with, so no call was made to the driver.
\<close>

theorem solve_all_recaptchas_no_attempt:
  "max_attempts \<le> 0 \<Longrightarrow>
     solve_all_recaptchas self max_attempts t = (Inr False, t)
     \<and> solve_all_recaptchas_while self max_attempts 0 t = (Inr False, 0, t)"
  by (simp add: solve_all_recaptchas_def solve_all_recaptchas_while.simps)

theorem solve_all_recaptchas_no_attempt_witness:
  "solve_all_recaptchas (init (verified_on_click [''tab1'']) 20) 0 [] = (Inr False, [])
   \<and> solve_all_recaptchas (init (verified_on_click [''tab1'']) 20) (- 1) [] = (Inr False, [])"
  using solve_all_recaptchas_no_attempt [of 0 "init (verified_on_click [''tab1'']) 20" "[]"]
        solve_all_recaptchas_no_attempt [of "- 1" "init (verified_on_click [''tab1'']) 20" "[]"]
  by simp

lemma while_step_True:
  "attempts < max_attempts \<Longrightarrow> fst (solve_recaptcha self 30 t) = Inr True \<Longrightarrow>
     solve_all_recaptchas_while self max_attempts attempts t =
       (Inr True, attempts + 1, snd (solve_recaptcha self 30 t))"
  by (subst solve_all_recaptchas_while.simps) (cases "solve_recaptcha self 30 t"; simp)

lemma while_step_False:
  "attempts < max_attempts \<Longrightarrow> fst (solve_recaptcha self 30 t) = Inr False \<Longrightarrow>
     solve_all_recaptchas_while self max_attempts attempts t =
       (if attempts + 1 < max_attempts
        then solve_all_recaptchas_while self max_attempts (attempts + 1)
               (snd (solve_recaptcha self 30 t) @ [Returned (Sleep 2000)])
        else solve_all_recaptchas_while self max_attempts (attempts + 1)
               (snd (solve_recaptcha self 30 t)))"
  by (subst solve_all_recaptchas_while.simps) (cases "solve_recaptcha self 30 t"; simp)

lemma while_exit:
  "\<not> attempts < max_attempts \<Longrightarrow>
     solve_all_recaptchas_while self max_attempts attempts t = (Inr False, attempts, t)"
  by (subst solve_all_recaptchas_while.simps) simp

lemma while_succeeds:
  "attempts + int k < max_attempts \<Longrightarrow>
   \<forall>j<k. fst (solve_recaptcha self 30 (after_failed_attempts self j t)) = Inr False \<Longrightarrow>
   fst (solve_recaptcha self 30 (after_failed_attempts self k t)) = Inr True \<Longrightarrow>
   solve_all_recaptchas_while self max_attempts attempts t =
     (Inr True, attempts + int k + 1,
      snd (solve_recaptcha self 30 (after_failed_attempts self k t)))"
proof (induction k arbitrary: attempts t)
  case 0
  then show ?case by (simp add: while_step_True)
next
  case (Suc k)
  let ?t' = "snd (solve_recaptcha self 30 t) @ [Returned (Sleep 2000)]"
  from Suc.prems(2) have "fst (solve_recaptcha self 30 (after_failed_attempts self 0 t)) = Inr False"
    by blast
  then have first: "fst (solve_recaptcha self 30 t) = Inr False"
    by simp
  have later: "\<forall>j<k. fst (solve_recaptcha self 30 (after_failed_attempts self j ?t')) = Inr False"
  proof (intro allI impI)
    fix j assume "j < k"
    then have "Suc j < Suc k" by simp
    with Suc.prems(2) show "fst (solve_recaptcha self 30 (after_failed_attempts self j ?t')) = Inr False"
      by fastforce
  qed
  have "solve_all_recaptchas_while self max_attempts (attempts + 1) ?t' =
     (Inr True, (attempts + 1) + int k + 1,
      snd (solve_recaptcha self 30 (after_failed_attempts self k ?t')))"
    using Suc.prems(1,3) later by (intro Suc.IH) simp_all
  with first Suc.prems(1) show ?case
    by (simp add: while_step_False)
qed

lemma while_fails:
  "0 < n \<Longrightarrow> attempts + int n = max_attempts \<Longrightarrow>
   \<forall>j<n. fst (solve_recaptcha self 30 (after_failed_attempts self j t)) = Inr False \<Longrightarrow>
   solve_all_recaptchas_while self max_attempts attempts t =
     (Inr False, max_attempts,
      snd (solve_recaptcha self 30 (after_failed_attempts self (n - 1) t)))"
proof (induction n arbitrary: attempts t)
  case 0
  then show ?case by simp
next
  case (Suc n)
  let ?t' = "snd (solve_recaptcha self 30 t) @ [Returned (Sleep 2000)]"
  from Suc.prems(3) have "fst (solve_recaptcha self 30 (after_failed_attempts self 0 t)) = Inr False"
    by blast
  then have first: "fst (solve_recaptcha self 30 t) = Inr False"
    by simp
  show ?case
  proof (cases n)
    case 0
    with Suc.prems(2) have last: "attempts + 1 = max_attempts" by simp
    then have "solve_all_recaptchas_while self max_attempts (attempts + 1)
                 (snd (solve_recaptcha self 30 t)) =
               (Inr False, max_attempts, snd (solve_recaptcha self 30 t))"
      by (simp add: while_exit)
    with first last 0 show ?thesis
      by (simp add: while_step_False)
  next
    case (Suc n')
    have later: "\<forall>j<n. fst (solve_recaptcha self 30 (after_failed_attempts self j ?t')) = Inr False"
    proof (intro allI impI)
      fix j assume "j < n"
      then have "Suc j < Suc n" by simp
      with Suc.prems(3) show "fst (solve_recaptcha self 30 (after_failed_attempts self j ?t')) = Inr False"
        by fastforce
    qed
    have "solve_all_recaptchas_while self max_attempts (attempts + 1) ?t' =
       (Inr False, max_attempts,
        snd (solve_recaptcha self 30 (after_failed_attempts self (n - 1) ?t')))"
      using Suc Suc.prems(2) later by (intro Suc.IH) simp_all
    with first Suc Suc.prems(2) show ?thesis
      by (simp add: while_step_False)
  qed
qed

text \<open>
  Claim C3. Attempt \<open>k + 1\<close> of \<open>solve_all_recaptchas\<close> starts from the trace
  \<open>after_failed_attempts self k t\<close>. If the first \<open>k\<close> attempts return \<open>False\<close>,
  attempt \<open>k + 1\<close> returns \<open>True\<close> and \<open>k + 1 \<le> max_attempts\<close>, the loop returns
  \<open>True\<close> with \<open>attempts = k + 1\<close>, and its trace is that of \<open>k + 1\<close> runs of
  \<open>solve_recaptcha\<close> with a sleep of 2 seconds between two runs. If all of the
  \<open>max_attempts \<ge> 1\<close> attempts return \<open>False\<close>, the loop returns \<open>False\<close> with
  \<open>attempts = max_attempts\<close>, after \<open>max_attempts\<close> runs and no sleep after the last.
\<close>

theorem solve_all_recaptchas_attempts:
  "(int k < max_attempts
    \<and> (\<forall>j<k. fst (solve_recaptcha self 30 (after_failed_attempts self j t)) = Inr False)
    \<and> fst (solve_recaptcha self 30 (after_failed_attempts self k t)) = Inr True \<longrightarrow>
      solve_all_recaptchas_while self max_attempts 0 t =
        (Inr True, int k + 1, snd (solve_recaptcha self 30 (after_failed_attempts self k t)))
      \<and> solve_all_recaptchas self max_attempts t =
        (Inr True, snd (solve_recaptcha self 30 (after_failed_attempts self k t))))
   \<and> (1 \<le> max_attempts
      \<and> (\<forall>j<nat max_attempts.
            fst (solve_recaptcha self 30 (after_failed_attempts self j t)) = Inr False) \<longrightarrow>
      solve_all_recaptchas_while self max_attempts 0 t =
        (Inr False, max_attempts,
         snd (solve_recaptcha self 30 (after_failed_attempts self (nat max_attempts - 1) t)))
      \<and> solve_all_recaptchas self max_attempts t =
        (Inr False,
         snd (solve_recaptcha self 30 (after_failed_attempts self (nat max_attempts - 1) t))))"
  using while_succeeds [of 0 k max_attempts self t]
        while_fails [of "nat max_attempts" 0 max_attempts self t]
  by (auto simp: solve_all_recaptchas_def)

lemma late_attempts:
  "after_failed_attempts (init rendered_late 20) 0 [] = []"
  "after_failed_attempts (init rendered_late 20) (Suc 0) [] =
     [Returned WindowHandles,
      Raised (UntilPresence 20 ''iframe[title='reCAPTCHA']'') TimeoutException,
      Returned SwitchToDefaultContent, Returned (Sleep 2000)]"
  "after_failed_attempts (init rendered_late 20) 2 [] =
     [Returned WindowHandles,
      Raised (UntilPresence 20 ''iframe[title='reCAPTCHA']'') TimeoutException,
      Returned SwitchToDefaultContent, Returned (Sleep 2000),
      Returned WindowHandles,
      Raised (UntilPresence 20 ''iframe[title='reCAPTCHA']'') TimeoutException,
      Returned SwitchToDefaultContent, Returned (Sleep 2000)]"
  by (simp_all add: numeral_2_eq_2 solver_defs stmt_defs init_def rendered_late_def)

theorem solve_all_recaptchas_attempts_witness:
  "solve_all_recaptchas_while (init rendered_late 20) 3 0 [] =
     (Inr True, 3,
      [Returned WindowHandles,
       Raised (UntilPresence 20 ''iframe[title='reCAPTCHA']'') TimeoutException,
       Returned SwitchToDefaultContent, Returned (Sleep 2000),
       Returned WindowHandles,
       Raised (UntilPresence 20 ''iframe[title='reCAPTCHA']'') TimeoutException,
       Returned SwitchToDefaultContent, Returned (Sleep 2000),
       Returned WindowHandles,
       Returned (UntilPresence 20 ''iframe[title='reCAPTCHA']''),
       Returned (SwitchToFrame (WebElement 1)),
       Returned (UntilClickable 20 ''#recaptcha-anchor''),
       Returned (Click (WebElement 2)), Returned (Sleep 2000),
       Returned (FindElement ''#recaptcha-anchor[aria-checked='true']''),
       Returned SwitchToDefaultContent])
   \<and> solve_all_recaptchas_while (init no_widget 20) 2 0 [] =
     (Inr False, 2,
      [Returned WindowHandles,
       Raised (UntilPresence 20 ''iframe[title='reCAPTCHA']'') TimeoutException,
       Returned SwitchToDefaultContent, Returned (Sleep 2000),
       Returned WindowHandles,
       Raised (UntilPresence 20 ''iframe[title='reCAPTCHA']'') TimeoutException,
       Returned SwitchToDefaultContent])"
proof -
  have no_widget: "after_failed_attempts (init no_widget 20) (Suc 0) [] =
     [Returned WindowHandles,
      Raised (UntilPresence 20 ''iframe[title='reCAPTCHA']'') TimeoutException,
      Returned SwitchToDefaultContent, Returned (Sleep 2000)]"
    by (simp add: solver_defs stmt_defs init_def no_widget_def)
  have late: "\<forall>j<2. fst (solve_recaptcha (init rendered_late 20) 30
                 (after_failed_attempts (init rendered_late 20) j [])) = Inr False"
    by (simp add: numeral_2_eq_2 less_Suc_eq late_attempts(2))
       (simp add: solver_defs stmt_defs init_def rendered_late_def)
  have third: "solve_recaptcha (init rendered_late 20) 30
                 (after_failed_attempts (init rendered_late 20) 2 []) =
     (Inr True,
      [Returned WindowHandles,
       Raised (UntilPresence 20 ''iframe[title='reCAPTCHA']'') TimeoutException,
       Returned SwitchToDefaultContent, Returned (Sleep 2000),
       Returned WindowHandles,
       Raised (UntilPresence 20 ''iframe[title='reCAPTCHA']'') TimeoutException,
       Returned SwitchToDefaultContent, Returned (Sleep 2000),
       Returned WindowHandles,
       Returned (UntilPresence 20 ''iframe[title='reCAPTCHA']''),
       Returned (SwitchToFrame (WebElement 1)),
       Returned (UntilClickable 20 ''#recaptcha-anchor''),
       Returned (Click (WebElement 2)), Returned (Sleep 2000),
       Returned (FindElement ''#recaptcha-anchor[aria-checked='true']''),
       Returned SwitchToDefaultContent])"
    unfolding late_attempts(3)
    by (simp add: solver_defs stmt_defs init_def rendered_late_def)
  have none: "\<forall>j<nat 2. fst (solve_recaptcha (init no_widget 20) 30
                 (after_failed_attempts (init no_widget 20) j [])) = Inr False"
    by (simp add: numeral_2_eq_2 less_Suc_eq no_widget)
       (simp add: solver_defs stmt_defs init_def no_widget_def)
  have last: "solve_recaptcha (init no_widget 20) 30
                 (after_failed_attempts (init no_widget 20) (Suc 0) []) =
     (Inr False,
      [Returned WindowHandles,
       Raised (UntilPresence 20 ''iframe[title='reCAPTCHA']'') TimeoutException,
       Returned SwitchToDefaultContent, Returned (Sleep 2000),
       Returned WindowHandles,
       Raised (UntilPresence 20 ''iframe[title='reCAPTCHA']'') TimeoutException,
       Returned SwitchToDefaultContent])"
    unfolding no_widget
    by (simp add: solver_defs stmt_defs init_def no_widget_def)
  show ?thesis
    using solve_all_recaptchas_attempts [where self = "init rendered_late 20" and k = 2 and max_attempts = 3 and t = "[]"]
          solve_all_recaptchas_attempts [where self = "init no_widget 20" and k = 0 and max_attempts = 2 and t = "[]"]
          late third none last
    by (simp add: numeral_2_eq_2)
qed

lemma while_returns:
  "fst (solve_all_recaptchas_while self max_attempts attempts t) = Inr True
   \<or> fst (solve_all_recaptchas_while self max_attempts attempts t) = Inr False"
proof (induction self max_attempts attempts t rule: solve_all_recaptchas_while.induct)
  case (1 self max_attempts attempts t)
  show ?case
  proof (cases "attempts < max_attempts")
    case False
    then show ?thesis by (simp add: while_exit)
  next
    case True
    obtain r t1 where r: "solve_recaptcha self 30 t = (r, t1)"
      by (cases "solve_recaptcha self 30 t")
    from solve_recaptcha_returns [of self 30 t] r consider "r = Inr True" | "r = Inr False"
      by auto
    then show ?thesis
    proof cases
      case 1
      with True r show ?thesis by (simp add: while_step_True)
    next
      case 2
      with True r "1.IH"(1) [of r t1 False] "1.IH"(2) [of r t1 False] show ?thesis
        by (simp add: while_step_False)
    qed
  qed
qed

text \<open>
  Claim C6. Whatever the driver returns or raises, \<open>solve_recaptcha\<close> and
  \<open>solve_all_recaptchas\<close> return a boolean; when the \<open>try\<close> block of
  \<open>solve_recaptcha\<close> raises, the result is \<open>False\<close>.
\<close>

theorem solve_recaptcha_never_raises:
  "(fst (solve_recaptcha self max_wait_time t) = Inr True
      \<or> fst (solve_recaptcha self max_wait_time t) = Inr False)
   \<and> (fst (solve_all_recaptchas self max_attempts t) = Inr True
      \<or> fst (solve_all_recaptchas self max_attempts t) = Inr False)
   \<and> (\<forall>e. fst (solve_recaptcha_try self max_wait_time t) = Inl e \<longrightarrow>
        fst (solve_recaptcha self max_wait_time t) = Inr False)"
  using solve_recaptcha_returns [of self max_wait_time t] while_returns [of self max_attempts 0 t]
  by (auto simp: solve_all_recaptchas_def solve_recaptcha_def except_Exception_def return_def
        split: prod.splits sum.splits)

theorem solve_recaptcha_never_raises_witness:
  "fst (solve_recaptcha_try (init lost_in_frame 20) 30 []) = Inl (WebDriverException ''disconnected'')
   \<and> fst (solve_recaptcha (init lost_in_frame 20) 30 []) = Inr False
   \<and> fst (solve_all_recaptchas (init lost_in_frame 20) 3 []) \<in> {Inr True, Inr False}"
proof -
  have raised: "fst (solve_recaptcha_try (init lost_in_frame 20) 30 []) =
      Inl (WebDriverException ''disconnected'')"
    by (simp add: solver_defs stmt_defs init_def lost_in_frame_def)
  show ?thesis
    using raised solve_recaptcha_never_raises [of "init lost_in_frame 20" 30 "[]" 3]
    by auto
qed

end
